theory Spec2Isabelle
  imports Main "HOL-Library.Monad_Syntax"
begin

section \<open>Values, errors and reports\<close>

text \<open>
  The validator of \<^verbatim>\<open>src/App.tsx\<close> (lines 51 to 635, the utility module that
  \<^verbatim>\<open>components/JsonValidator.tsx\<close> imports) works on JavaScript strings and on the
  values \<^verbatim>\<open>JSON.parse\<close> returns. A string is a list of code units; the theory writes
  them as \<^typ>\<open>char\<close>, so it covers the code units below 256, which include every
  character the source compares against.

  A thrown JavaScript error is a value of \<open>js_error\<close>; the constructor is the class the
  source tests with \<^verbatim>\<open>instanceof\<close>, the argument the error's \<^verbatim>\<open>message\<close>.
\<close>

datatype js_error = SyntaxError string | TypeError string | RangeError string | Error string

fun error_message :: "js_error \<Rightarrow> string" where
  "error_message (SyntaxError m) = m"
| "error_message (TypeError m) = m"
| "error_message (RangeError m) = m"
| "error_message (Error m) = m"

text \<open>
  A number is a finite double or one of the three values \<^verbatim>\<open>Number.isFinite\<close> rejects.
  Every finite double is a finite decimal: \<open>Finite m e\<close> stands for \<open>m * 10 ^ e\<close>. The
  source never looks at the value of a finite number.
\<close>

datatype jsnumber = Finite int int | NaN | Infinity | NegInfinity

text \<open>
  The values without shared or cyclic structure. An object is the list of its own
  enumerable properties in the order \<^verbatim>\<open>Object.keys\<close>, \<^verbatim>\<open>Object.entries\<close> and
  \<^verbatim>\<open>for ... in\<close> enumerate them.
\<close>

datatype jsvalue =
    JNull
  | JUndefined
  | JBoolean bool
  | JNumber jsnumber
  | JString string
  | JArray "jsvalue list"
  | JObject "(string \<times> jsvalue) list"

text \<open>The interfaces \<^verbatim>\<open>ValidationError\<close> and \<^verbatim>\<open>ValidationResult\<close> (lines 60 to 71).\<close>

record ValidationError =
  type :: string
  message :: string
  path :: "string option"
  line :: "nat option"
  column :: "nat option"

record ValidationResult =
  valid :: bool
  errors :: "ValidationError list"

text \<open>
  Every finding of the source is added by the two statements
  \<^verbatim>\<open>result.valid = false; result.errors.push(e)\<close>.
\<close>

definition push :: "ValidationResult \<Rightarrow> ValidationError \<Rightarrow> ValidationResult" where
  "push r e = r\<lparr>valid := False, errors := errors r @ [e]\<rparr>"

definition initial_result :: ValidationResult where
  "initial_result = \<lparr>valid = True, errors = []\<rparr>"

section \<open>Strings of the platform\<close>

definition digit_char :: "nat \<Rightarrow> char" where
  "digit_char d = ''0123456789'' ! d"

text \<open>The decimal text of an index or a length, as a template literal prints it.\<close>

function string_of_nat :: "nat \<Rightarrow> string" where
  "string_of_nat n =
     (if n < 10 then [digit_char n] else string_of_nat (n div 10) @ [digit_char (n mod 10)])"
  by pat_completeness auto
termination
  by (relation "measure id") auto

declare string_of_nat.simps [simp del]

definition is_digit :: "char \<Rightarrow> bool" where
  "is_digit c = (c \<in> set ''0123456789'')"

definition digit_value :: "char \<Rightarrow> nat" where
  "digit_value c = of_char c - 48"

text \<open>\<^verbatim>\<open>parseInt(ds, 10)\<close> on a string of decimal digits.\<close>

definition parseInt :: "string \<Rightarrow> nat" where
  "parseInt ds = foldl (\<lambda>n c. 10 * n + digit_value c) 0 ds"

definition startsWith :: "string \<Rightarrow> string \<Rightarrow> bool" where
  "startsWith s t = (take (length t) s = t)"

fun str_includes :: "string \<Rightarrow> string \<Rightarrow> bool" where
  "str_includes [] t = (t = [])"
| "str_includes (c # cs) t = (startsWith (c # cs) t \<or> str_includes cs t)"

text \<open>\<^verbatim>\<open>s.charAt(i)\<close>: the empty string outside the string.\<close>

definition charAt :: "string \<Rightarrow> nat \<Rightarrow> string" where
  "charAt s i = (if i < length s then [s ! i] else [])"

text \<open>
  The white space of \<^verbatim>\<open>String.prototype.trim\<close> and of the regular expression class
  \<^verbatim>\<open>\s\<close>, among the code units below 256: tab, line feed, vertical tab, form feed,
  carriage return, space and the no-break space.
\<close>

definition is_space :: "char \<Rightarrow> bool" where
  "is_space c = (c \<in> set [CHR 0x09, CHR 0x0A, CHR 0x0B, CHR 0x0C, CHR 0x0D, CHR 0x20, CHR 0xA0])"

definition trim :: "string \<Rightarrow> string" where
  "trim s = rev (dropWhile is_space (rev (dropWhile is_space s)))"

text \<open>\<^verbatim>\<open>s.split('\n')\<close>: at least one piece, the separators left out.\<close>

fun split_lines :: "string \<Rightarrow> string list" where
  "split_lines [] = [[]]"
| "split_lines (c # cs) =
     (if c = CHR 0x0A then [] # split_lines cs
      else (case split_lines cs of l # ls \<Rightarrow> (c # l) # ls | [] \<Rightarrow> [[c]]))"

text \<open>
  The comparison \<^verbatim>\<open>a <= b\<close> of two strings: code unit by code unit, a proper prefix
  being smaller.
\<close>

fun js_le :: "string \<Rightarrow> string \<Rightarrow> bool" where
  "js_le [] t = True"
| "js_le (c # cs) [] = False"
| "js_le (c # cs) (d # ds) =
     ((of_char c :: nat) < of_char d \<or> (c = d \<and> js_le cs ds))"

section \<open>The collaborators outside the repository\<close>

text \<open>
  The source calls the built-in \<^verbatim>\<open>JSON.parse\<close> and \<^verbatim>\<open>JSON.stringify\<close> and the
  schema library Ajv. They are parameters of the model: every function that reaches one
  of them takes the platform \<open>P\<close>. A parser returns the value or the error it throws.
  A serializer returns the text, or nothing for a value that has no JSON text
  (\<^verbatim>\<open>undefined\<close>), or the error it throws. Compiling a schema returns the error Ajv
  throws or the validating function; that function returns its verdict and what it
  leaves in \<^verbatim>\<open>validate.errors\<close> (\<^verbatim>\<open>null\<close> is \<open>None\<close>).
\<close>

record ajv_error =
  err_message :: "string option"
  instancePath :: string

type_synonym ajv_validate = "jsvalue \<Rightarrow> bool \<times> ajv_error list option"

record platform =
  JSON_parse :: "string \<Rightarrow> js_error + jsvalue"
  JSON_stringify :: "jsvalue \<Rightarrow> js_error + string option"
  Ajv_compile :: "jsvalue \<Rightarrow> js_error + ajv_validate"

section \<open>validateJsonSyntax (lines 78 to 124)\<close>

text \<open>
  \<^verbatim>\<open>error.message.match(/at position (\d+)/)\<close>: the digits after the leftmost
  \<^verbatim>\<open>at position\<close> that a digit follows.
\<close>

fun match_position :: "string \<Rightarrow> string option" where
  "match_position [] = None"
| "match_position (c # cs) =
     (let ds = takeWhile is_digit (drop 12 (c # cs)) in
      if startsWith (c # cs) ''at position '' \<and> ds \<noteq> [] then Some ds
      else match_position cs)"

text \<open>
  The loop of lines 95 to 107 (and again of lines 360 to 371): from line 1, column 1,
  one step for each index below \<open>position\<close>.
\<close>

definition line_column_step :: "string \<Rightarrow> nat \<Rightarrow> nat \<times> nat \<Rightarrow> nat \<times> nat" where
  "line_column_step s i lc =
     (if charAt s i = [CHR 0x0A] then (fst lc + 1, 1) else (fst lc, snd lc + 1))"

definition line_column :: "string \<Rightarrow> nat \<Rightarrow> nat \<times> nat" where
  "line_column s position = fold (line_column_step s) [0..<position] (1, 1)"

definition validateJsonSyntax :: "platform \<Rightarrow> string \<Rightarrow> ValidationResult" where
  "validateJsonSyntax P jsonString =
     (case JSON_parse P jsonString of
        Inr _ \<Rightarrow> \<lparr>valid = True, errors = []\<rparr>
      | Inl (SyntaxError msg) \<Rightarrow>
          (let position = map_option parseInt (match_position msg);
               lc = (case position of None \<Rightarrow> (1, 1) | Some p \<Rightarrow> line_column jsonString p)
           in \<lparr>valid = False,
               errors = [\<lparr>type = ''SyntaxError'', message = msg, path = None,
                          line = Some (fst lc), column = Some (snd lc)\<rparr>]\<rparr>)
      | Inl e \<Rightarrow>
          \<lparr>valid = False,
           errors = [\<lparr>type = ''UnknownError'', message = error_message e, path = None,
                      line = None, column = None\<rparr>]\<rparr>)"

section \<open>validateJsonSchema (lines 132 to 151)\<close>

definition schema_error :: "ajv_error \<Rightarrow> ValidationError" where
  "schema_error err =
     \<lparr>type = ''SchemaError'',
      message = (case err_message err of
                   None \<Rightarrow> ''Unknown schema validation error''
                 | Some m \<Rightarrow> if m = [] then ''Unknown schema validation error'' else m),
      path = Some (instancePath err), line = None, column = None\<rparr>"

definition validateJsonSchema :: "platform \<Rightarrow> jsvalue \<Rightarrow> jsvalue \<Rightarrow> js_error + ValidationResult" where
  "validateJsonSchema P jsonData schema =
     (case Ajv_compile P schema of
        Inl e \<Rightarrow> Inl e
      | Inr validate \<Rightarrow>
          (let (ok, validate_errors) = validate jsonData;
               result = \<lparr>valid = ok, errors = []\<rparr>
           in Inr (case validate_errors of
                     Some errs \<Rightarrow>
                       if \<not> ok then result\<lparr>errors := map schema_error errs\<rparr> else result
                   | None \<Rightarrow> result)))"

section \<open>checkDuplicateKeys (lines 158 to 472)\<close>

subsection \<open>The scan of each line (lines 165 to 200)\<close>

text \<open>
  The regular expression \<^verbatim>\<open>/"([^"]+)"\s*:/\<close> tried at index \<open>i\<close> of a line: a quote, one
  or more characters other than a quote, a quote, white space, a colon. The group can
  only end at the next quote and the white space can only end at the first character
  that is none, so there is one way to match. The result is the group and the index
  after the match.
\<close>

definition match_key_at :: "string \<Rightarrow> nat \<Rightarrow> (string \<times> nat) option" where
  "match_key_at ln i =
     (let key = takeWhile (\<lambda>c. c \<noteq> CHR 0x22) (drop (i + 1) ln);
          j = i + 1 + length key;
          k = j + 1 + length (takeWhile is_space (drop (j + 1) ln))
      in if charAt ln i = [CHR 0x22] \<and> key \<noteq> [] \<and> charAt ln j = [CHR 0x22]
            \<and> charAt ln k = '':''
         then Some (key, k + 1) else None)"

fun first_match :: "string \<Rightarrow> nat list \<Rightarrow> (nat \<times> string \<times> nat) option" where
  "first_match ln [] = None"
| "first_match ln (i # is) =
     (case match_key_at ln i of
        Some (key, e) \<Rightarrow> Some (i, key, e)
      | None \<Rightarrow> first_match ln is)"

text \<open>
  \<^verbatim>\<open>keyRegex.exec(line)\<close> with the flag \<^verbatim>\<open>g\<close>: the leftmost match that starts at
  \<open>lastIndex\<close> or later, as \<^verbatim>\<open>match.index\<close>, \<^verbatim>\<open>match[1]\<close> and the new
  \<open>lastIndex\<close>. A failed search resets \<open>lastIndex\<close> to 0, so every line starts at 0.
\<close>

definition keyRegex_exec :: "string \<Rightarrow> nat \<Rightarrow> (nat \<times> string \<times> nat) option" where
  "keyRegex_exec ln lastIndex = first_match ln [lastIndex..<length ln]"

text \<open>
  The \<^verbatim>\<open>Map\<close> from a key to the columns it was seen at, in the order of insertion.
\<close>

definition add_position :: "string \<Rightarrow> nat \<Rightarrow> (string \<times> nat list) list \<Rightarrow> (string \<times> nat list) list" where
  "add_position key col keys =
     (if key \<notin> fst ` set keys then keys @ [(key, [col])]
      else map (\<lambda>(k, positions). if k = key then (k, positions @ [col]) else (k, positions)) keys)"

function line_keys :: "string \<Rightarrow> nat \<Rightarrow> (string \<times> nat list) list \<Rightarrow> (string \<times> nat list) list" where
  "line_keys ln lastIndex keys =
     (case keyRegex_exec ln lastIndex of
        None \<Rightarrow> keys
      | Some (index, key, lastIndex') \<Rightarrow> line_keys ln lastIndex' (add_position key (index + 1) keys))"
  by pat_completeness auto
termination
proof (relation "measure (\<lambda>(ln, lastIndex, keys). length ln - lastIndex)")
  show "wf (measure (\<lambda>(ln, lastIndex, keys). length ln - lastIndex))"
    by simp
next
  fix ln :: string and lastIndex :: nat and keys :: "(string \<times> nat list) list"
    and x2 :: "nat \<times> string \<times> nat" and index :: nat and y :: "string \<times> nat"
    and key :: string and e :: nat
  assume ex: "keyRegex_exec ln lastIndex = Some x2" and x2: "(index, y) = x2" and y: "(key, e) = y"
  have fm: "first_match ln is = Some (i, k, e') \<Longrightarrow> i \<in> set is \<and> match_key_at ln i = Some (k, e')"
    for "is" i k e'
    by (induction "is") (auto split: option.splits)
  have "index \<in> set [lastIndex..<length ln]" and m: "match_key_at ln index = Some (key, e)"
    using fm [of "[lastIndex..<length ln]" index key e] ex x2 [symmetric] y [symmetric]
    by (simp_all add: keyRegex_exec_def)
  then have "lastIndex \<le> index" and "index < length ln"
    by simp_all
  moreover from m have "index < e"
    by (auto simp: match_key_at_def Let_def split: if_splits)
  ultimately show "((ln, e, add_position key (index + 1) keys), ln, lastIndex, keys)
      \<in> measure (\<lambda>(ln, lastIndex, keys). length ln - lastIndex)"
    by simp
qed

declare line_keys.simps [simp del]

text \<open>
  The duplicates of one line: for each key seen more than once, in the order of first
  occurrence, every column but the first.
\<close>

definition line_duplicates :: "nat \<Rightarrow> string \<Rightarrow> (string \<times> nat \<times> nat) list" where
  "line_duplicates lineNum ln =
     concat (map (\<lambda>(key, positions).
                    if length positions > 1
                    then map (\<lambda>col. (key, lineNum + 1, col)) (tl positions) else [])
               (line_keys ln 0 []))"

definition scan_lines :: "string \<Rightarrow> (string \<times> nat \<times> nat) list" where
  "scan_lines jsonString =
     (let lines = split_lines jsonString
      in concat (map (\<lambda>lineNum. line_duplicates lineNum (lines ! lineNum)) [0..<length lines]))"

subsection \<open>The comparison of two serializations (lines 203 to 281)\<close>

text \<open>
  \<^verbatim>\<open>JSON.parse(jsonString, (k, v) => v)\<close> parses as \<^verbatim>\<open>JSON.parse(jsonString)\<close> does and
  then visits the value bottom-up: each property and element is replaced by what the
  reviver returns for it, here the value itself, and a property whose new value is
  \<^verbatim>\<open>undefined\<close> is deleted.
\<close>

fun internalize :: "jsvalue \<Rightarrow> jsvalue"
  and internalize_elements :: "jsvalue list \<Rightarrow> jsvalue list"
  and internalize_properties :: "(string \<times> jsvalue) list \<Rightarrow> (string \<times> jsvalue) list"
where
  "internalize (JArray items) = JArray (internalize_elements items)"
| "internalize (JObject props) = JObject (internalize_properties props)"
| "internalize JNull = JNull"
| "internalize JUndefined = JUndefined"
| "internalize (JBoolean b) = JBoolean b"
| "internalize (JNumber x) = JNumber x"
| "internalize (JString s) = JString s"
| "internalize_elements [] = []"
| "internalize_elements (x # xs) = internalize x # internalize_elements xs"
| "internalize_properties [] = []"
| "internalize_properties ((k, v) # kvs) =
     (if internalize v = JUndefined then internalize_properties kvs
      else (k, internalize v) # internalize_properties kvs)"

text \<open>
  \<^verbatim>\<open>detectDuplicates\<close> (lines 238 to 257), with the list \<^verbatim>\<open>duplicateKeyPaths\<close> as an
  accumulator. It walks \<^verbatim>\<open>Object.keys(obj)\<close>; the model walks the properties, whose
  keys those are. (\<^verbatim>\<open>collectKeys\<close>, lines 216 to 232, fills a list that nothing reads.)
\<close>

fun detectDuplicates :: "jsvalue \<Rightarrow> string \<Rightarrow> string list \<Rightarrow> string list"
  and detectDuplicates_keys ::
    "(string \<times> jsvalue) list \<Rightarrow> string set \<Rightarrow> string \<Rightarrow> string list \<Rightarrow> string list"
  and detectDuplicates_items :: "jsvalue list \<Rightarrow> nat \<Rightarrow> string \<Rightarrow> string list \<Rightarrow> string list"
where
  "detectDuplicates (JObject props) pth acc = detectDuplicates_keys props {} pth acc"
| "detectDuplicates (JArray items) pth acc = detectDuplicates_items items 0 pth acc"
| "detectDuplicates JNull pth acc = acc"
| "detectDuplicates JUndefined pth acc = acc"
| "detectDuplicates (JBoolean b) pth acc = acc"
| "detectDuplicates (JNumber x) pth acc = acc"
| "detectDuplicates (JString s) pth acc = acc"
| "detectDuplicates_keys [] keySet pth acc = acc"
| "detectDuplicates_keys ((key, v) # kvs) keySet pth acc =
     (let newPath = (if pth \<noteq> [] then pth @ ''.'' @ key else key);
          acc1 = (if key \<in> keySet then acc @ [newPath] else acc)
      in detectDuplicates_keys kvs (insert key keySet) pth (detectDuplicates v newPath acc1))"
| "detectDuplicates_items [] i pth acc = acc"
| "detectDuplicates_items (x # xs) i pth acc =
     detectDuplicates_items xs (Suc i) pth
       (detectDuplicates x
          (if pth \<noteq> [] then pth @ ''['' @ string_of_nat i @ '']''
           else ''['' @ string_of_nat i @ '']'') acc)"

text \<open>\<^verbatim>\<open>path.split('.').pop() || path\<close>\<close>

definition last_segment :: "string \<Rightarrow> string" where
  "last_segment pth =
     (let seg = rev (takeWhile (\<lambda>c. c \<noteq> CHR ''.'') (rev pth)) in if seg = [] then pth else seg)"

definition duplicate_at_path :: "string \<Rightarrow> ValidationError" where
  "duplicate_at_path pth =
     \<lparr>type = ''DuplicateKey'',
      message = ''Duplicate key '' @ [CHR 0x22] @ last_segment pth @ [CHR 0x22]
                @ '' found in object at path: '' @ pth,
      path = Some pth, line = None, column = None\<rparr>"

text \<open>
  The body of the first \<^verbatim>\<open>try\<close>: \<open>Inl\<close> is an exception on its way to the
  \<^verbatim>\<open>catch\<close> of line 274. Reading \<^verbatim>\<open>length\<close> of \<^verbatim>\<open>undefined\<close> is a
  \<^verbatim>\<open>TypeError\<close>. Nothing can throw once the first finding is pushed, so an exception
  leaves \<^verbatim>\<open>result\<close> as it was.
\<close>

definition thorough_check :: "platform \<Rightarrow> string \<Rightarrow> ValidationResult \<Rightarrow> js_error + ValidationResult" where
  "thorough_check P jsonString r =
     (case JSON_parse P jsonString of Inl e \<Rightarrow> Inl e | Inr strict \<Rightarrow>
      case JSON_stringify P strict of Inl e \<Rightarrow> Inl e | Inr strictJSON \<Rightarrow>
      case JSON_parse P jsonString of Inl e \<Rightarrow> Inl e | Inr lenient \<Rightarrow>
      case JSON_stringify P (internalize lenient) of Inl e \<Rightarrow> Inl e | Inr lenientJSON \<Rightarrow>
      case (strictJSON, lenientJSON) of
        (Some a, Some b) \<Rightarrow>
          if length a \<noteq> length b then
            (case JSON_parse P jsonString of Inl e \<Rightarrow> Inl e | Inr parsed \<Rightarrow>
               Inr (fold (\<lambda>pth r'. push r' (duplicate_at_path pth))
                      (detectDuplicates parsed [] []) r))
          else Inr r
      | _ \<Rightarrow> Inl (TypeError ''Cannot read properties of undefined''))"

subsection \<open>The scanner that keeps duplicate keys (lines 297 to 460)\<close>

text \<open>
  The scanner's variables \<^verbatim>\<open>at\<close> and \<^verbatim>\<open>ch\<close>, and the \<^verbatim>\<open>result\<close> its closures
  write to. \<^verbatim>\<open>ch\<close> is a string: one character, or empty past the end of the input.
\<close>

record pstate =
  at :: nat
  ch :: string
  result :: ValidationResult

text \<open>
  A scanner function returns a value and the new state, or throws the
  \<^verbatim>\<open>SyntaxError\<close> of \<^verbatim>\<open>error(m)\<close>; the state at the throw keeps the findings
  pushed so far.
\<close>

datatype 'a outcome = Ok 'a pstate | Thrown string pstate

definition next_ch :: "string \<Rightarrow> pstate \<Rightarrow> pstate" where
  "next_ch input s = s\<lparr>ch := charAt input (at s), at := at s + 1\<rparr>"

text \<open>
  The loops and the mutual recursion of the scanner take a budget: each call and each
  turn of a loop uses one unit, and \<open>None\<close> says that the budget did not suffice. The
  loop of \<^verbatim>\<open>string\<close> (line 321) never ends once \<^verbatim>\<open>at\<close> is past the end of the
  input, since \<^verbatim>\<open>next()\<close> then returns the empty string for ever; there no budget
  suffices.
\<close>

fun white :: "nat \<Rightarrow> string \<Rightarrow> pstate \<Rightarrow> pstate option" where
  "white 0 input s = None"
| "white (Suc n) input s =
     (if ch s \<noteq> [] \<and> js_le (ch s) '' '' then white n input (next_ch input s) else Some s)"

fun string_loop :: "nat \<Rightarrow> string \<Rightarrow> pstate \<Rightarrow> string \<Rightarrow> (string \<times> pstate) option" where
  "string_loop 0 input s str = None"
| "string_loop (Suc n) input s str =
     (let s1 = next_ch input s in
      if ch s1 = [CHR 0x22] then Some (str, s1)
      else (let s2 = (if ch s1 = [CHR 0x5C] then next_ch input s1 else s1)
            in string_loop n input s2 (str @ ch s2)))"

definition string_lit :: "nat \<Rightarrow> string \<Rightarrow> pstate \<Rightarrow> (string \<times> pstate) option" where
  "string_lit n input s =
     (if ch s = [CHR 0x22]
      then (case string_loop n input s [] of
              None \<Rightarrow> None
            | Some (str, s1) \<Rightarrow> Some (str, next_ch input s1))
      else Some ([], s))"

text \<open>The loop of the \<^verbatim>\<open>default\<close> case of \<^verbatim>\<open>value\<close> (line 446).\<close>

fun token_loop :: "nat \<Rightarrow> string \<Rightarrow> pstate \<Rightarrow> pstate option" where
  "token_loop 0 input s = None"
| "token_loop (Suc n) input s =
     (if ch s \<noteq> [] \<and> \<not> js_le (ch s) '' '' \<and> ch s \<noteq> '','' \<and> ch s \<noteq> '']'' \<and> ch s \<noteq> ''}''
      then token_loop n input (next_ch input s) else Some s)"

text \<open>The finding of lines 358 to 380, pushed after \<^verbatim>\<open>next()\<close> has passed the colon.\<close>

definition duplicate_in_object :: "string \<Rightarrow> nat \<Rightarrow> nat \<Rightarrow> ValidationError" where
  "duplicate_in_object key ln col =
     \<lparr>type = ''DuplicateKey'',
      message = ''Duplicate key '' @ [CHR 0x22] @ key @ [CHR 0x22] @ '' found in object'',
      path = None, line = Some ln, column = Some col\<rparr>"

definition report_duplicate :: "string \<Rightarrow> string \<Rightarrow> pstate \<Rightarrow> pstate" where
  "report_duplicate input key s =
     (let pos = int (at s) - int (length key) - 3;
          lc = line_column input (nat pos)
      in s\<lparr>result := push (result s) (duplicate_in_object key (fst lc) (snd lc))\<rparr>)"

text \<open>
  One turn of the loop of \<^verbatim>\<open>object\<close> is cut in three: from the top of the loop to the
  key's check (lines 343 to 382, \<open>object_key\<close>), the call of \<^verbatim>\<open>value\<close>, and the rest of
  the turn (lines 386 to 397, \<open>object_next\<close>, which says whether the loop goes on). A
  \<^verbatim>\<open>break\<close> leaves the loop for \<^verbatim>\<open>error("Bad object")\<close>.
\<close>

definition object_key :: "nat \<Rightarrow> string \<Rightarrow> string set \<Rightarrow> pstate \<Rightarrow> string outcome option" where
  "object_key n input keys s =
     (case white n input s of
        None \<Rightarrow> None
      | Some s1 \<Rightarrow>
          if ch s1 \<noteq> [CHR 0x22] then Some (Thrown ''Bad object'' s1)
          else
            (case string_lit n input s1 of
               None \<Rightarrow> None
             | Some (key, s2) \<Rightarrow>
                 (case white n input s2 of
                    None \<Rightarrow> None
                  | Some s3 \<Rightarrow>
                      if ch s3 \<noteq> '':'' then Some (Thrown ''Bad object'' s3)
                      else
                        (let s4 = next_ch input s3
                         in Some (Ok key (if key \<in> keys then report_duplicate input key s4
                                          else s4))))))"

definition object_next :: "nat \<Rightarrow> string \<Rightarrow> pstate \<Rightarrow> bool outcome option" where
  "object_next n input s =
     (case white n input s of
        None \<Rightarrow> None
      | Some s1 \<Rightarrow>
          if ch s1 = ''}'' then Some (Ok False (next_ch input s1))
          else if ch s1 \<noteq> '','' then Some (Thrown ''Bad object'' s1)
          else Some (Ok True (next_ch input s1)))"

text \<open>The rest of a turn of the loop of \<^verbatim>\<open>array\<close> after \<^verbatim>\<open>value\<close> (lines 414 to 423).\<close>

definition array_next :: "nat \<Rightarrow> string \<Rightarrow> pstate \<Rightarrow> bool outcome option" where
  "array_next n input s =
     (case white n input s of
        None \<Rightarrow> None
      | Some s1 \<Rightarrow>
          if ch s1 = '']'' then Some (Ok False (next_ch input s1))
          else if ch s1 \<noteq> '','' then Some (Thrown ''Bad array'' s1)
          else map_option (Ok True) (white n input (next_ch input s1)))"

function value_p :: "nat \<Rightarrow> string \<Rightarrow> pstate \<Rightarrow> unit outcome option"
  and object :: "nat \<Rightarrow> string \<Rightarrow> pstate \<Rightarrow> unit outcome option"
  and object_loop :: "nat \<Rightarrow> string \<Rightarrow> string set \<Rightarrow> pstate \<Rightarrow> unit outcome option"
  and array :: "nat \<Rightarrow> string \<Rightarrow> pstate \<Rightarrow> unit outcome option"
  and array_loop :: "nat \<Rightarrow> string \<Rightarrow> pstate \<Rightarrow> unit outcome option"
where
  "value_p 0 input s = None"
| "value_p (Suc n) input s =
     (case white n input s of
        None \<Rightarrow> None
      | Some s1 \<Rightarrow>
          if ch s1 = ''{'' then object n input s1
          else if ch s1 = ''['' then array n input s1
          else if ch s1 = [CHR 0x22] then map_option (\<lambda>(str, s2). Ok () s2) (string_lit n input s1)
          else if ch s1 = ''-'' then map_option (Ok ()) (token_loop n input (next_ch input s1))
          else map_option (Ok ()) (token_loop n input s1))"
| "object 0 input s = None"
| "object (Suc n) input s =
     (if ch s = ''{'' then
        (case white n input (next_ch input s) of
           None \<Rightarrow> None
         | Some s1 \<Rightarrow>
             if ch s1 = ''}'' then Some (Ok () (next_ch input s1))
             else object_loop n input {} s1)
      else Some (Ok () s))"
| "object_loop 0 input keys s = None"
| "object_loop (Suc n) input keys s =
     (if ch s = [] then Some (Thrown ''Bad object'' s)
      else
        (case object_key n input keys s of
           None \<Rightarrow> None
         | Some (Thrown m s1) \<Rightarrow> Some (Thrown m s1)
         | Some (Ok key s1) \<Rightarrow>
             (case value_p n input s1 of
                None \<Rightarrow> None
              | Some (Thrown m s2) \<Rightarrow> Some (Thrown m s2)
              | Some (Ok u s2) \<Rightarrow>
                  (case object_next n input s2 of
                     None \<Rightarrow> None
                   | Some (Thrown m s3) \<Rightarrow> Some (Thrown m s3)
                   | Some (Ok again s3) \<Rightarrow>
                       if again then object_loop n input (insert key keys) s3
                       else Some (Ok () s3)))))"
| "array 0 input s = None"
| "array (Suc n) input s =
     (if ch s = ''['' then
        (case white n input (next_ch input s) of
           None \<Rightarrow> None
         | Some s1 \<Rightarrow>
             if ch s1 = '']'' then Some (Ok () (next_ch input s1))
             else array_loop n input s1)
      else Some (Thrown ''Bad array'' s))"
| "array_loop 0 input s = None"
| "array_loop (Suc n) input s =
     (if ch s = [] then Some (Thrown ''Bad array'' s)
      else
        (case value_p n input s of
           None \<Rightarrow> None
         | Some (Thrown m s1) \<Rightarrow> Some (Thrown m s1)
         | Some (Ok u s1) \<Rightarrow>
             (case array_next n input s1 of
                None \<Rightarrow> None
              | Some (Thrown m s2) \<Rightarrow> Some (Thrown m s2)
              | Some (Ok again s2) \<Rightarrow>
                  if again then array_loop n input s2 else Some (Ok () s2))))"
  by pat_completeness auto
termination
  by (relation "measure (\<lambda>x. case x of
                    Inl (Inl (n, _)) \<Rightarrow> n | Inl (Inr (n, _)) \<Rightarrow> n
                  | Inr (Inl (n, _)) \<Rightarrow> n | Inr (Inr (Inl (n, _))) \<Rightarrow> n
                  | Inr (Inr (Inr (n, _))) \<Rightarrow> n)")
    auto

text \<open>Lines 452 to 459: the scan starts before the first character, with a blank in \<^verbatim>\<open>ch\<close>.\<close>

definition permissive_scan :: "nat \<Rightarrow> string \<Rightarrow> ValidationResult \<Rightarrow> unit outcome option" where
  "permissive_scan fuel input r =
     (case white fuel input \<lparr>at = 0, ch = '' '', result = r\<rparr> of
        None \<Rightarrow> None
      | Some s1 \<Rightarrow>
          (case value_p fuel input s1 of
             None \<Rightarrow> None
           | Some (Thrown m s2) \<Rightarrow> Some (Thrown m s2)
           | Some (Ok u s2) \<Rightarrow>
               (case white fuel input s2 of
                  None \<Rightarrow> None
                | Some s3 \<Rightarrow>
                    if ch s3 \<noteq> [] then Some (Thrown ''Syntax error'' s3) else Some (Ok () s3))))"

subsection \<open>The three stages together\<close>

text \<open>
  Both \<^verbatim>\<open>catch\<close> clauses return the report of \<^verbatim>\<open>validateJsonSyntax\<close> when it is
  invalid (lines 277 to 280 and 464 to 467); the second does so only for an error whose
  message does not start with \<^verbatim>\<open>Syntax error\<close>. \<open>None\<close>: the scanner did not return
  within the budget.
\<close>

definition checkDuplicateKeys :: "platform \<Rightarrow> nat \<Rightarrow> string \<Rightarrow> ValidationResult option" where
  "checkDuplicateKeys P fuel jsonString =
     (let duplicates = scan_lines jsonString;
          syntaxResult = validateJsonSyntax P jsonString;
          checked = thorough_check P jsonString initial_result
      in if isl checked \<and> \<not> valid syntaxResult then Some syntaxResult
         else
           (let r1 = (case checked of Inr r \<Rightarrow> r | Inl e \<Rightarrow> initial_result);
                r2 = fold (\<lambda>(key, ln, col) r. push r (duplicate_in_object key ln col)) duplicates r1
            in case permissive_scan fuel jsonString r2 of
                 None \<Rightarrow> None
               | Some (Ok u s) \<Rightarrow> Some (result s)
               | Some (Thrown m s) \<Rightarrow>
                   if \<not> startsWith m ''Syntax error'' \<and> \<not> valid syntaxResult
                   then Some syntaxResult else Some (result s)))"

section \<open>checkJsonAnomalies (lines 479 to 597)\<close>

definition MAX_DEPTH :: nat where
  "MAX_DEPTH = 100"

definition MAX_COLLECTION_SIZE :: nat where
  "MAX_COLLECTION_SIZE = 100000"

definition circular_reference :: ValidationError where
  "circular_reference =
     \<lparr>type = ''CircularReference'', message = ''Circular reference detected in JSON data'',
      path = None, line = None, column = None\<rparr>"

definition invalid_number :: "string \<Rightarrow> string \<Rightarrow> ValidationError" where
  "invalid_number text pth =
     \<lparr>type = ''InvalidNumber'', message = ''Invalid number value: '' @ text,
      path = Some pth, line = None, column = None\<rparr>"

definition excessive_nesting :: ValidationError where
  "excessive_nesting =
     \<lparr>type = ''ExcessiveNesting'',
      message = ''JSON exceeds maximum recommended nesting depth of '' @ string_of_nat MAX_DEPTH,
      path = None, line = None, column = None\<rparr>"

definition large_array :: "string \<Rightarrow> nat \<Rightarrow> ValidationError" where
  "large_array pth n =
     \<lparr>type = ''LargeArray'',
      message = ''Array at '' @ (if pth \<noteq> [] then pth else ''root'') @ '' contains ''
                @ string_of_nat n @ '' items, which exceeds the recommended limit of ''
                @ string_of_nat MAX_COLLECTION_SIZE,
      path = Some pth, line = None, column = None\<rparr>"

definition large_object :: "string \<Rightarrow> nat \<Rightarrow> ValidationError" where
  "large_object pth n =
     \<lparr>type = ''LargeObject'',
      message = ''Object at '' @ (if pth \<noteq> [] then pth else ''root'') @ '' contains ''
                @ string_of_nat n @ '' properties, which exceeds the recommended limit of ''
                @ string_of_nat MAX_COLLECTION_SIZE,
      path = Some pth, line = None, column = None\<rparr>"

text \<open>
  The three walks are closures over \<^verbatim>\<open>result\<close>; the model passes it through. Each
  \<^verbatim>\<open>forEach\<close> and each \<^verbatim>\<open>for\<close> loop over the children is a function over the list
  of the children still to visit.
\<close>

fun checkForInvalidNumbers :: "jsvalue \<Rightarrow> string \<Rightarrow> ValidationResult \<Rightarrow> ValidationResult"
  and checkForInvalidNumbers_items ::
    "jsvalue list \<Rightarrow> nat \<Rightarrow> string \<Rightarrow> ValidationResult \<Rightarrow> ValidationResult"
  and checkForInvalidNumbers_entries ::
    "(string \<times> jsvalue) list \<Rightarrow> string \<Rightarrow> ValidationResult \<Rightarrow> ValidationResult"
where
  "checkForInvalidNumbers JNull pth r = r"
| "checkForInvalidNumbers JUndefined pth r = r"
| "checkForInvalidNumbers (JNumber x) pth r =
     (case x of
        Finite m e \<Rightarrow> r
      | NaN \<Rightarrow> push r (invalid_number ''NaN'' pth)
      | Infinity \<Rightarrow> push r (invalid_number ''Infinity'' pth)
      | NegInfinity \<Rightarrow> push r (invalid_number ''-Infinity'' pth))"
| "checkForInvalidNumbers (JArray items) pth r = checkForInvalidNumbers_items items 0 pth r"
| "checkForInvalidNumbers (JObject props) pth r = checkForInvalidNumbers_entries props pth r"
| "checkForInvalidNumbers (JBoolean b) pth r = r"
| "checkForInvalidNumbers (JString s) pth r = r"
| "checkForInvalidNumbers_items [] index pth r = r"
| "checkForInvalidNumbers_items (item # items) index pth r =
     checkForInvalidNumbers_items items (Suc index) pth
       (checkForInvalidNumbers item (pth @ ''['' @ string_of_nat index @ '']'') r)"
| "checkForInvalidNumbers_entries [] pth r = r"
| "checkForInvalidNumbers_entries ((key, v) # entries) pth r =
     checkForInvalidNumbers_entries entries pth
       (checkForInvalidNumbers v (if pth \<noteq> [] then pth @ ''.'' @ key else key) r)"

text \<open>
  \<^verbatim>\<open>checkDepth\<close> returns the depth it reached, next to the result it wrote to. The
  loops carry \<^verbatim>\<open>maxDepth\<close>.
\<close>

fun checkDepth :: "jsvalue \<Rightarrow> nat \<Rightarrow> ValidationResult \<Rightarrow> nat \<times> ValidationResult"
  and checkDepth_items ::
    "jsvalue list \<Rightarrow> nat \<Rightarrow> nat \<Rightarrow> ValidationResult \<Rightarrow> nat \<times> ValidationResult"
  and checkDepth_entries ::
    "(string \<times> jsvalue) list \<Rightarrow> nat \<Rightarrow> nat \<Rightarrow> ValidationResult \<Rightarrow> nat \<times> ValidationResult"
where
  "checkDepth obj currentDepth r =
     (if currentDepth > MAX_DEPTH then (currentDepth, push r excessive_nesting)
      else
        (case obj of
           JArray items \<Rightarrow> checkDepth_items items currentDepth currentDepth r
         | JObject props \<Rightarrow> checkDepth_entries props currentDepth currentDepth r
         | _ \<Rightarrow> (currentDepth, r)))"
| "checkDepth_items [] currentDepth maxDepth r = (maxDepth, r)"
| "checkDepth_items (item # items) currentDepth maxDepth r =
     (let (depth, r1) = checkDepth item (currentDepth + 1) r
      in checkDepth_items items currentDepth (max maxDepth depth) r1)"
| "checkDepth_entries [] currentDepth maxDepth r = (maxDepth, r)"
| "checkDepth_entries ((key, v) # entries) currentDepth maxDepth r =
     (let (depth, r1) = checkDepth v (currentDepth + 1) r
      in checkDepth_entries entries currentDepth (max maxDepth depth) r1)"

text \<open>
  \<^verbatim>\<open>checkSize\<close>: the children are visited in the \<^verbatim>\<open>else if\<close> branch of line 571
  only, which an array longer than the limit does not reach. \<^verbatim>\<open>Object.keys\<close> of an
  array has one key for each element.
\<close>

fun checkSize :: "jsvalue \<Rightarrow> string \<Rightarrow> ValidationResult \<Rightarrow> ValidationResult"
  and checkSize_items :: "jsvalue list \<Rightarrow> nat \<Rightarrow> string \<Rightarrow> ValidationResult \<Rightarrow> ValidationResult"
  and checkSize_entries ::
    "(string \<times> jsvalue) list \<Rightarrow> string \<Rightarrow> ValidationResult \<Rightarrow> ValidationResult"
where
  "checkSize (JArray items) pth r =
     (if length items > MAX_COLLECTION_SIZE then push r (large_array pth (length items))
      else checkSize_items items 0 pth
             (if length items > MAX_COLLECTION_SIZE then push r (large_object pth (length items))
              else r))"
| "checkSize (JObject props) pth r =
     checkSize_entries props pth
       (if length props > MAX_COLLECTION_SIZE then push r (large_object pth (length props))
        else r)"
| "checkSize JNull pth r = r"
| "checkSize JUndefined pth r = r"
| "checkSize (JBoolean b) pth r = r"
| "checkSize (JNumber x) pth r = r"
| "checkSize (JString s) pth r = r"
| "checkSize_items [] index pth r = r"
| "checkSize_items (item # items) index pth r =
     checkSize_items items (Suc index) pth
       (checkSize item (pth @ ''['' @ string_of_nat index @ '']'') r)"
| "checkSize_entries [] pth r = r"
| "checkSize_entries ((key, v) # entries) pth r =
     checkSize_entries entries pth
       (checkSize v (if pth \<noteq> [] then pth @ ''.'' @ key else key) r)"

text \<open>
  Lines 486 to 496: of what \<^verbatim>\<open>JSON.stringify\<close> may throw, only a \<^verbatim>\<open>TypeError\<close> whose
  message contains \<^verbatim>\<open>circular\<close> leaves a finding.
\<close>

definition checkJsonAnomalies :: "platform \<Rightarrow> jsvalue \<Rightarrow> ValidationResult" where
  "checkJsonAnomalies P jsonData =
     (let r0 = initial_result;
          r1 = (case JSON_stringify P jsonData of
                  Inl (TypeError m) \<Rightarrow>
                    if str_includes m ''circular'' then push r0 circular_reference else r0
                | _ \<Rightarrow> r0);
          r2 = checkForInvalidNumbers jsonData [] r1;
          r3 = snd (checkDepth jsonData 0 r2)
      in checkSize jsonData [] r3)"

section \<open>validateJson (lines 605 to 635) and its caller\<close>

text \<open>
  \<open>None\<close>: the scanner of \<^verbatim>\<open>checkDuplicateKeys\<close> did not return within the budget.
  \<open>Some (Inl e)\<close>: the error \<open>e\<close> leaves \<^verbatim>\<open>validateJson\<close>. An object is truthy, so
  \<^verbatim>\<open>if (schema)\<close> asks whether a schema was passed.
\<close>

definition validateJson ::
  "platform \<Rightarrow> nat \<Rightarrow> string \<Rightarrow> jsvalue option \<Rightarrow> (js_error + ValidationResult) option" where
  "validateJson P fuel jsonString schema =
     (case checkDuplicateKeys P fuel jsonString of
        None \<Rightarrow> None
      | Some duplicateKeysResult \<Rightarrow>
          if \<not> valid duplicateKeysResult then Some (Inr duplicateKeysResult)
          else
            (let syntaxResult = validateJsonSyntax P jsonString
             in if \<not> valid syntaxResult then Some (Inr syntaxResult)
                else
                  (case JSON_parse P jsonString of
                     Inl e \<Rightarrow> Some (Inl e)
                   | Inr jsonData \<Rightarrow>
                       (let anomalyResult = checkJsonAnomalies P jsonData
                        in case schema of
                             None \<Rightarrow> Some (Inr anomalyResult)
                           | Some sch \<Rightarrow>
                               (case validateJsonSchema P jsonData sch of
                                  Inl e \<Rightarrow> Some (Inl e)
                                | Inr schemaResult \<Rightarrow>
                                    Some (Inr \<lparr>valid = valid anomalyResult \<and> valid schemaResult,
                                               errors = errors anomalyResult @ errors schemaResult\<rparr>))))))"

text \<open>
  \<^verbatim>\<open>validateJsonInput\<close> of \<^verbatim>\<open>components/JsonValidator.tsx\<close> (lines 30 to 41), the only
  caller of \<^verbatim>\<open>validateJson\<close>: the value is the report it hands to
  \<^verbatim>\<open>setValidationResult\<close>. It passes no schema.
\<close>

definition empty_input :: ValidationError where
  "empty_input =
     \<lparr>type = ''EmptyInput'', message = ''JSON input is empty'',
      path = None, line = None, column = None\<rparr>"

definition validateJsonInput ::
  "platform \<Rightarrow> nat \<Rightarrow> string \<Rightarrow> (js_error + ValidationResult) option" where
  "validateJsonInput P fuel jsonInput =
     (if trim jsonInput = [] then Some (Inr \<lparr>valid = False, errors = [empty_input]\<rparr>)
      else validateJson P fuel jsonInput None)"

section \<open>A reference platform\<close>

text \<open>
  The theorems on all inputs hold for every platform. The theorems on one input run the
  source on a platform that follows the standards: the JSON grammar of ECMA-404 as
  \<^verbatim>\<open>JSON.parse\<close> reads it, with the messages of V8 (\<^verbatim>\<open>Unexpected token x in JSON at
  position 13\<close>, \<^verbatim>\<open>Unexpected end of JSON input\<close>), the serialization of ECMA-262, and
  Ajv for the schemas that use the keyword \<^verbatim>\<open>type\<close> alone.
\<close>

subsection \<open>JSON.parse\<close>

definition unexpected :: "nat \<Rightarrow> string \<Rightarrow> js_error" where
  "unexpected pos rest =
     (case rest of
        [] \<Rightarrow> SyntaxError ''Unexpected end of JSON input''
      | c # cs \<Rightarrow>
          if c = CHR 0x22
          then SyntaxError (''Unexpected string in JSON at position '' @ string_of_nat pos)
          else if is_digit c \<or> c = CHR ''-''
          then SyntaxError (''Unexpected number in JSON at position '' @ string_of_nat pos)
          else SyntaxError (''Unexpected token '' @ [c] @ '' in JSON at position ''
                            @ string_of_nat pos))"

definition is_json_space :: "char \<Rightarrow> bool" where
  "is_json_space c = (c \<in> set [CHR 0x09, CHR 0x0A, CHR 0x0D, CHR 0x20])"

definition skip_ws :: "nat \<Rightarrow> string \<Rightarrow> nat \<times> string" where
  "skip_ws pos rest =
     (pos + length (takeWhile is_json_space rest), dropWhile is_json_space rest)"

definition hex_value :: "char \<Rightarrow> nat option" where
  "hex_value c =
     (let n = of_char c :: nat in
      if 48 \<le> n \<and> n \<le> 57 then Some (n - 48)
      else if 65 \<le> n \<and> n \<le> 70 then Some (n - 55)
      else if 97 \<le> n \<and> n \<le> 102 then Some (n - 87)
      else None)"

definition escape_char :: "char \<Rightarrow> char option" where
  "escape_char c =
     (if c = CHR 0x22 then Some (CHR 0x22)
      else if c = CHR 0x5C then Some (CHR 0x5C)
      else if c = CHR ''/'' then Some (CHR ''/'')
      else if c = CHR ''b'' then Some (CHR 0x08)
      else if c = CHR ''f'' then Some (CHR 0x0C)
      else if c = CHR ''n'' then Some (CHR 0x0A)
      else if c = CHR ''r'' then Some (CHR 0x0D)
      else if c = CHR ''t'' then Some (CHR 0x09)
      else None)"

text \<open>
  The escape \<^verbatim>\<open>\uXXXX\<close> denotes the code unit \<open>XXXX\<close>; from 256 on that is no
  \<^typ>\<open>char\<close>, and the model, which is about the code units below 256, keeps the low
  byte.
\<close>

definition unicode_escape :: "string \<Rightarrow> char option" where
  "unicode_escape ds =
     (case map hex_value ds of
        [Some a, Some b, Some c, Some d] \<Rightarrow> Some (char_of (16 * c + d))
      | _ \<Rightarrow> None)"

text \<open>The characters of a string after its opening quote, up to the closing one.\<close>

function json_string :: "nat \<Rightarrow> string \<Rightarrow> string \<Rightarrow> js_error + (string \<times> nat \<times> string)" where
  "json_string pos [] acc = Inl (unexpected pos [])"
| "json_string pos (c # cs) acc =
     (if c = CHR 0x22 then Inr (acc, pos + 1, cs)
      else if c = CHR 0x5C then
        (if cs = [] then Inl (unexpected (pos + 1) [])
         else if hd cs = CHR ''u'' then
           (case unicode_escape (take 4 (tl cs)) of
              Some u \<Rightarrow> json_string (pos + 6) (drop 4 (tl cs)) (acc @ [u])
            | None \<Rightarrow>
                Inl (unexpected (pos + 2 + length (takeWhile (\<lambda>h. hex_value h \<noteq> None) (tl cs)))
                       (dropWhile (\<lambda>h. hex_value h \<noteq> None) (tl cs))))
         else
           (case escape_char (hd cs) of
              Some u \<Rightarrow> json_string (pos + 2) (tl cs) (acc @ [u])
            | None \<Rightarrow> Inl (unexpected (pos + 1) cs)))
      else if (of_char c :: nat) < 32 then Inl (unexpected pos (c # cs))
      else json_string (pos + 1) cs (acc @ [c]))"
  by pat_completeness auto
termination
  by (relation "measure (\<lambda>(pos, rest, acc). length rest)") auto

declare json_string.simps [simp del]

text \<open>
  A number literal is \<open>m * 10 ^ e\<close>. \<^verbatim>\<open>JSON.parse\<close> rounds it to a double: to an
  infinity from \<open>2 ^ 1024 - 2 ^ 970\<close> on, half way between the largest double and
  \<open>2 ^ 1024\<close>.
\<close>

definition to_double :: "bool \<Rightarrow> nat \<Rightarrow> int \<Rightarrow> jsnumber" where
  "to_double negative m e =
     (if (0 \<le> e \<and> int m * 10 ^ nat e \<ge> 2 ^ 1024 - 2 ^ 970)
         \<or> (e < 0 \<and> int m \<ge> (2 ^ 1024 - 2 ^ 970) * 10 ^ nat (- e))
      then (if negative then NegInfinity else Infinity)
      else Finite (if negative then - int m else int m) e)"

definition json_digits :: "string \<Rightarrow> string \<times> string" where
  "json_digits rest = (takeWhile is_digit rest, dropWhile is_digit rest)"

definition json_number :: "nat \<Rightarrow> string \<Rightarrow> js_error + (jsvalue \<times> nat \<times> string)" where
  "json_number pos rest =
     (let negative = (rest \<noteq> [] \<and> hd rest = CHR ''-'');
          p1 = (if negative then pos + 1 else pos);
          r1 = (if negative then tl rest else rest);
          ip = (if r1 \<noteq> [] \<and> hd r1 = CHR ''0'' then ''0'' else fst (json_digits r1));
          p2 = p1 + length ip;
          r2 = drop (length ip) r1
      in if ip = [] then Inl (unexpected p1 r1)
         else
           (let has_frac = (r2 \<noteq> [] \<and> hd r2 = CHR ''.'');
                fp = (if has_frac then fst (json_digits (tl r2)) else []);
                p3 = (if has_frac then p2 + 1 + length fp else p2);
                r3 = (if has_frac then drop (length fp) (tl r2) else r2)
            in if has_frac \<and> fp = [] then Inl (unexpected (p2 + 1) (tl r2))
               else
                 (let has_exp = (r3 \<noteq> [] \<and> (hd r3 = CHR ''e'' \<or> hd r3 = CHR ''E''));
                      r4 = (if has_exp then tl r3 else r3);
                      has_sign = (has_exp \<and> r4 \<noteq> [] \<and> (hd r4 = CHR ''+'' \<or> hd r4 = CHR ''-''));
                      exp_negative = (has_sign \<and> hd r4 = CHR ''-'');
                      r5 = (if has_sign then tl r4 else r4);
                      ep = (if has_exp then fst (json_digits r5) else []);
                      p5 = p3 + (if has_exp then 1 else 0) + (if has_sign then 1 else 0);
                      ex = (if exp_negative then - int (parseInt ep) else int (parseInt ep))
                  in if has_exp \<and> ep = [] then Inl (unexpected p5 r5)
                     else Inr (JNumber (to_double negative (parseInt (ip @ fp)) (ex - int (length fp))),
                               p5 + length ep, drop (length ep) r5))))"

definition json_literal :: "nat \<Rightarrow> string \<Rightarrow> js_error + (jsvalue \<times> nat \<times> string)" where
  "json_literal pos rest =
     (let word = (if rest \<noteq> [] \<and> hd rest = CHR ''t'' then ''true''
                  else if rest \<noteq> [] \<and> hd rest = CHR ''f'' then ''false''
                  else if rest \<noteq> [] \<and> hd rest = CHR ''n'' then ''null'' else []);
          same = length (takeWhile (\<lambda>(a, b). a = b) (zip word rest))
      in if word = [] \<or> same < length word then Inl (unexpected (pos + same) (drop same rest))
         else Inr (if word = ''true'' then JBoolean True
                   else if word = ''false'' then JBoolean False else JNull,
                   pos + length word, drop (length word) rest))"

text \<open>
  A property that is defined twice keeps its first place and its last value. The keys
  that are array indices are enumerated first, in ascending order, then the other keys
  in the order of their creation.
\<close>

definition define_property :: "(string \<times> jsvalue) list \<Rightarrow> string \<Rightarrow> jsvalue \<Rightarrow> (string \<times> jsvalue) list" where
  "define_property props key v =
     (if key \<in> fst ` set props then map (\<lambda>(k, w). if k = key then (k, v) else (k, w)) props
      else props @ [(key, v)])"

definition is_array_index :: "string \<Rightarrow> bool" where
  "is_array_index k =
     (k \<noteq> [] \<and> list_all is_digit k \<and> (k = ''0'' \<or> hd k \<noteq> CHR ''0'') \<and> parseInt k < 2 ^ 32 - 1)"

definition own_property_order :: "(string \<times> jsvalue) list \<Rightarrow> (string \<times> jsvalue) list" where
  "own_property_order props =
     sort_key (\<lambda>(k, v). parseInt k) (filter (\<lambda>(k, v). is_array_index k) props)
     @ filter (\<lambda>(k, v). \<not> is_array_index k) props"

text \<open>
  What follows a value (and white space) inside an array or an object: the separator,
  the closing bracket, or an error.
\<close>

datatype after_value = Separator nat string | Closing nat string | Neither js_error

definition json_after :: "char \<Rightarrow> nat \<Rightarrow> string \<Rightarrow> after_value" where
  "json_after closing pos rest =
     (let (p1, r1) = skip_ws pos rest
      in if r1 \<noteq> [] \<and> hd r1 = CHR '','' then
           (let (p2, r2) = skip_ws (p1 + 1) (tl r1) in Separator p2 r2)
         else if r1 \<noteq> [] \<and> hd r1 = closing then Closing (p1 + 1) (tl r1)
         else Neither (unexpected p1 r1))"

text \<open>The key of a member and its colon; the result is the key and where the value starts.\<close>

definition json_key :: "nat \<Rightarrow> string \<Rightarrow> js_error + (string \<times> nat \<times> string)" where
  "json_key pos rest =
     (if rest \<noteq> [] \<and> hd rest = CHR 0x22 then
        (case json_string (pos + 1) (tl rest) [] of
           Inl e \<Rightarrow> Inl e
         | Inr (key, p1, r1) \<Rightarrow>
             (let (p2, r2) = skip_ws p1 r1
              in if r2 \<noteq> [] \<and> hd r2 = CHR '':'' then
                   (let (p3, r3) = skip_ws (p2 + 1) (tl r2) in Inr (key, p3, r3))
                 else Inl (unexpected p2 r2)))
      else Inl (unexpected pos rest))"

text \<open>
  The recursive descent takes the depth it may still reach; a text needs no more than
  its length.
\<close>

function json_value :: "nat \<Rightarrow> nat \<Rightarrow> string \<Rightarrow> js_error + (jsvalue \<times> nat \<times> string)"
  and json_elements ::
    "nat \<Rightarrow> nat \<Rightarrow> string \<Rightarrow> jsvalue list \<Rightarrow> js_error + (jsvalue \<times> nat \<times> string)"
  and json_members ::
    "nat \<Rightarrow> nat \<Rightarrow> string \<Rightarrow> (string \<times> jsvalue) list \<Rightarrow> js_error + (jsvalue \<times> nat \<times> string)"
where
  "json_value 0 pos rest = Inl (RangeError ''Maximum call stack size exceeded'')"
| "json_value (Suc n) pos rest =
     (if rest = [] then Inl (unexpected pos rest)
      else if hd rest = CHR ''['' then
        (let (p1, r1) = skip_ws (pos + 1) (tl rest)
         in if r1 \<noteq> [] \<and> hd r1 = CHR '']'' then Inr (JArray [], p1 + 1, tl r1)
            else json_elements n p1 r1 [])
      else if hd rest = CHR ''{'' then
        (let (p1, r1) = skip_ws (pos + 1) (tl rest)
         in if r1 \<noteq> [] \<and> hd r1 = CHR ''}'' then Inr (JObject [], p1 + 1, tl r1)
            else json_members n p1 r1 [])
      else if hd rest = CHR 0x22 then
        (case json_string (pos + 1) (tl rest) [] of
           Inl e \<Rightarrow> Inl e
         | Inr (s, p1, r1) \<Rightarrow> Inr (JString s, p1, r1))
      else if hd rest = CHR ''-'' \<or> is_digit (hd rest) then json_number pos rest
      else json_literal pos rest)"
| "json_elements 0 pos rest acc = Inl (RangeError ''Maximum call stack size exceeded'')"
| "json_elements (Suc n) pos rest acc =
     (case json_value n pos rest of
        Inl e \<Rightarrow> Inl e
      | Inr (v, p1, r1) \<Rightarrow>
          (case json_after (CHR '']'') p1 r1 of
             Separator p2 r2 \<Rightarrow> json_elements n p2 r2 (acc @ [v])
           | Closing p2 r2 \<Rightarrow> Inr (JArray (acc @ [v]), p2, r2)
           | Neither e \<Rightarrow> Inl e))"
| "json_members 0 pos rest acc = Inl (RangeError ''Maximum call stack size exceeded'')"
| "json_members (Suc n) pos rest acc =
     (case json_key pos rest of
        Inl e \<Rightarrow> Inl e
      | Inr (key, p1, r1) \<Rightarrow>
          (case json_value n p1 r1 of
             Inl e \<Rightarrow> Inl e
           | Inr (v, p2, r2) \<Rightarrow>
               (case json_after (CHR ''}'') p2 r2 of
                  Separator p3 r3 \<Rightarrow> json_members n p3 r3 (define_property acc key v)
                | Closing p3 r3 \<Rightarrow>
                    Inr (JObject (own_property_order (define_property acc key v)), p3, r3)
                | Neither e \<Rightarrow> Inl e)))"
  by pat_completeness auto
termination
  by (relation "measure (\<lambda>x. case x of
                    Inl (n, _) \<Rightarrow> n | Inr (Inl (n, _)) \<Rightarrow> n | Inr (Inr (n, _)) \<Rightarrow> n)")
    auto

definition JSON_parse_model :: "string \<Rightarrow> js_error + jsvalue" where
  "JSON_parse_model text =
     (let (p0, r0) = skip_ws 0 text
      in case json_value (Suc (length text)) p0 r0 of
           Inl e \<Rightarrow> Inl e
         | Inr (v, p1, r1) \<Rightarrow>
             (let (p2, r2) = skip_ws p1 r1
              in if r2 = [] then Inr v else Inl (unexpected p2 r2)))"

subsection \<open>JSON.stringify\<close>

definition hex_char :: "nat \<Rightarrow> char" where
  "hex_char d = ''0123456789abcdef'' ! d"

definition quote_char :: "char \<Rightarrow> string" where
  "quote_char c =
     (if c = CHR 0x22 then [CHR 0x5C, CHR 0x22]
      else if c = CHR 0x5C then [CHR 0x5C, CHR 0x5C]
      else if c = CHR 0x08 then [CHR 0x5C, CHR ''b'']
      else if c = CHR 0x0C then [CHR 0x5C, CHR ''f'']
      else if c = CHR 0x0A then [CHR 0x5C, CHR ''n'']
      else if c = CHR 0x0D then [CHR 0x5C, CHR ''r'']
      else if c = CHR 0x09 then [CHR 0x5C, CHR ''t'']
      else if (of_char c :: nat) < 32
      then [CHR 0x5C, CHR ''u'', CHR ''0'', CHR ''0'', hex_char (of_char c div 16),
            hex_char (of_char c mod 16)]
      else [c])"

definition quote_json :: "string \<Rightarrow> string" where
  "quote_json s = [CHR 0x22] @ concat (map quote_char s) @ [CHR 0x22]"

text \<open>
  \<^verbatim>\<open>Number::toString\<close> of ECMA-262 for \<open>m * 10 ^ e\<close>: with \<open>k\<close> significant
  digits and the decimal point after the \<open>n\<close>-th of them.
\<close>

definition number_to_string :: "int \<Rightarrow> int \<Rightarrow> string" where
  "number_to_string m e =
     (if m = 0 then ''0''
      else
        (let all_digits = string_of_nat (nat \<bar>m\<bar>);
             digits = rev (dropWhile (\<lambda>c. c = CHR ''0'') (rev all_digits));
             k = int (length digits);
             n = int (length all_digits) + e;
             sign = (if m < 0 then ''-'' else [])
         in sign @
            (if k \<le> n \<and> n \<le> 21 then digits @ replicate (nat (n - k)) (CHR ''0'')
             else if 0 < n \<and> n \<le> 21 then take (nat n) digits @ ''.'' @ drop (nat n) digits
             else if - 6 < n \<and> n \<le> 0 then ''0.'' @ replicate (nat (- n)) (CHR ''0'') @ digits
             else take 1 digits @ (if k = 1 then [] else ''.'' @ drop 1 digits) @ ''e''
                  @ (if 0 \<le> n - 1 then ''+'' else ''-'') @ string_of_nat (nat \<bar>n - 1\<bar>))))"

definition join_comma :: "string list \<Rightarrow> string" where
  "join_comma parts = concat (case parts of [] \<Rightarrow> [] | x # xs \<Rightarrow> x # map (\<lambda>y. '','' @ y) xs)"

text \<open>
  \<^verbatim>\<open>SerializeJSONProperty\<close>: \<open>None\<close> is \<^verbatim>\<open>undefined\<close>. A number that is not finite
  and an element that is \<^verbatim>\<open>undefined\<close> are written \<^verbatim>\<open>null\<close>; a property that is
  \<^verbatim>\<open>undefined\<close> is left out.
\<close>

fun serialize :: "jsvalue \<Rightarrow> string option"
  and serialize_elements :: "jsvalue list \<Rightarrow> string list"
  and serialize_properties :: "(string \<times> jsvalue) list \<Rightarrow> string list"
where
  "serialize JNull = Some ''null''"
| "serialize JUndefined = None"
| "serialize (JBoolean b) = Some (if b then ''true'' else ''false'')"
| "serialize (JNumber x) =
     Some (case x of Finite m e \<Rightarrow> number_to_string m e | _ \<Rightarrow> ''null'')"
| "serialize (JString s) = Some (quote_json s)"
| "serialize (JArray items) = Some (''['' @ join_comma (serialize_elements items) @ '']'')"
| "serialize (JObject props) = Some (''{'' @ join_comma (serialize_properties props) @ ''}'')"
| "serialize_elements [] = []"
| "serialize_elements (x # xs) =
     (case serialize x of None \<Rightarrow> ''null'' | Some text \<Rightarrow> text) # serialize_elements xs"
| "serialize_properties [] = []"
| "serialize_properties ((k, v) # kvs) =
     (case serialize v of
        None \<Rightarrow> serialize_properties kvs
      | Some text \<Rightarrow> (quote_json k @ '':'' @ text) # serialize_properties kvs)"

definition JSON_stringify_model :: "jsvalue \<Rightarrow> js_error + string option" where
  "JSON_stringify_model v = Inr (serialize v)"

subsection \<open>Ajv, for the keyword type\<close>

text \<open>
  The schemas of this fragment are \<^verbatim>\<open>{}\<close>, which every value satisfies, and
  \<^verbatim>\<open>{"type": t}\<close>. Ajv throws when it compiles a schema whose \<^verbatim>\<open>type\<close> is none of the
  seven names, and, in its default strict mode, when it meets a keyword it does not
  know; the fragment knows \<^verbatim>\<open>type\<close> alone. A failed validation leaves one error with
  an empty instance path.
\<close>

definition ajv_types :: "string list" where
  "ajv_types = [''string'', ''number'', ''integer'', ''boolean'', ''null'', ''array'', ''object'']"

definition has_type :: "string \<Rightarrow> jsvalue \<Rightarrow> bool" where
  "has_type t data =
     (case data of
        JNull \<Rightarrow> t = ''null''
      | JUndefined \<Rightarrow> False
      | JBoolean b \<Rightarrow> t = ''boolean''
      | JNumber x \<Rightarrow>
          (case x of
             Finite m e \<Rightarrow>
               t = ''number'' \<or> (t = ''integer'' \<and> (0 \<le> e \<or> 10 ^ nat (- e) dvd m))
           | _ \<Rightarrow> False)
      | JString s \<Rightarrow> t = ''string''
      | JArray items \<Rightarrow> t = ''array''
      | JObject props \<Rightarrow> t = ''object'')"

definition type_validator :: "string \<Rightarrow> ajv_validate" where
  "type_validator t data =
     (if has_type t data then (True, None)
      else (False, Some [\<lparr>err_message = Some (''must be '' @ t), instancePath = []\<rparr>]))"

definition Ajv_compile_model :: "jsvalue \<Rightarrow> js_error + ajv_validate" where
  "Ajv_compile_model schema =
     (case schema of
        JObject [] \<Rightarrow> Inr (\<lambda>data. (True, None))
      | JObject ((k, v) # rest) \<Rightarrow>
          if k \<noteq> ''type'' \<or> rest \<noteq> []
          then Inl (Error (''strict mode: unknown keyword: ''
                           @ quote_json (if k \<noteq> ''type'' then k else fst (hd rest))))
          else
            (case v of
               JString t \<Rightarrow>
                 if t \<in> set ajv_types then Inr (type_validator t)
                 else Inl (Error (''schema is invalid: data/type must be equal to one of ''
                                  @ ''the allowed values''))
             | _ \<Rightarrow> Inl (Error ''schema is invalid: data/type must be string''))
      | _ \<Rightarrow> Inl (Error ''schema must be object or boolean''))"

definition reference :: platform where
  "reference =
     \<lparr>JSON_parse = JSON_parse_model, JSON_stringify = JSON_stringify_model,
      Ajv_compile = Ajv_compile_model\<rparr>"

section \<open>Values with shared and cyclic structure\<close>

text \<open>
  \<^verbatim>\<open>checkJsonAnomalies\<close> takes any value, also one that \<^verbatim>\<open>JSON.parse\<close> cannot
  return: an object that is its own descendant. Such a value is a reference into a
  store of objects. The three walks are read again over the store. Each call of a
  walk takes a frame of the call stack; \<open>limit\<close> is the number of nested calls the
  stack holds, and the call that does not fit throws the \<^verbatim>\<open>RangeError\<close> of the
  engine. The serializer of the platform is the parameter \<open>stringify\<close>.
\<close>

type_synonym address = nat

datatype ref_value =
    RNull
  | RUndefined
  | RBoolean bool
  | RNumber jsnumber
  | RString string
  | Ref address

datatype heap_object = HArray "ref_value list" | HObject "(string \<times> ref_value) list"

type_synonym heap = "address \<Rightarrow> heap_object"

definition stack_overflow :: js_error where
  "stack_overflow = RangeError ''Maximum call stack size exceeded''"

function heap_checkForInvalidNumbers ::
    "nat \<Rightarrow> heap \<Rightarrow> ref_value \<Rightarrow> string \<Rightarrow> ValidationResult \<Rightarrow> js_error + ValidationResult"
  and heap_checkForInvalidNumbers_items ::
    "nat \<Rightarrow> heap \<Rightarrow> ref_value list \<Rightarrow> nat \<Rightarrow> string \<Rightarrow> ValidationResult
      \<Rightarrow> js_error + ValidationResult"
  and heap_checkForInvalidNumbers_entries ::
    "nat \<Rightarrow> heap \<Rightarrow> (string \<times> ref_value) list \<Rightarrow> string \<Rightarrow> ValidationResult
      \<Rightarrow> js_error + ValidationResult"
where
  "heap_checkForInvalidNumbers 0 h obj pth r = Inl stack_overflow"
| "heap_checkForInvalidNumbers (Suc limit) h obj pth r =
     (case obj of
        RNumber x \<Rightarrow>
          Inr (case x of
                 Finite m e \<Rightarrow> r
               | NaN \<Rightarrow> push r (invalid_number ''NaN'' pth)
               | Infinity \<Rightarrow> push r (invalid_number ''Infinity'' pth)
               | NegInfinity \<Rightarrow> push r (invalid_number ''-Infinity'' pth))
      | Ref a \<Rightarrow>
          (case h a of
             HArray items \<Rightarrow> heap_checkForInvalidNumbers_items limit h items 0 pth r
           | HObject props \<Rightarrow> heap_checkForInvalidNumbers_entries limit h props pth r)
      | _ \<Rightarrow> Inr r)"
| "heap_checkForInvalidNumbers_items limit h [] index pth r = Inr r"
| "heap_checkForInvalidNumbers_items limit h (item # items) index pth r =
     (case heap_checkForInvalidNumbers limit h item (pth @ ''['' @ string_of_nat index @ '']'') r of
        Inl e \<Rightarrow> Inl e
      | Inr r1 \<Rightarrow> heap_checkForInvalidNumbers_items limit h items (Suc index) pth r1)"
| "heap_checkForInvalidNumbers_entries limit h [] pth r = Inr r"
| "heap_checkForInvalidNumbers_entries limit h ((key, v) # entries) pth r =
     (case heap_checkForInvalidNumbers limit h v (if pth \<noteq> [] then pth @ ''.'' @ key else key) r of
        Inl e \<Rightarrow> Inl e
      | Inr r1 \<Rightarrow> heap_checkForInvalidNumbers_entries limit h entries pth r1)"
  by pat_completeness auto
termination
  by (relation "measures
        [\<lambda>x. case x of Inl (n, _) \<Rightarrow> n | Inr (Inl (n, _)) \<Rightarrow> n | Inr (Inr (n, _)) \<Rightarrow> n,
         \<lambda>x. case x of Inl _ \<Rightarrow> 0 | Inr (Inl (n, h, items, _)) \<Rightarrow> Suc (length items)
                  | Inr (Inr (n, h, entries, _)) \<Rightarrow> Suc (length entries)]")
    auto

fun heap_checkDepth ::
    "nat \<Rightarrow> heap \<Rightarrow> ref_value \<Rightarrow> nat \<Rightarrow> ValidationResult \<Rightarrow> js_error + nat \<times> ValidationResult"
  and heap_checkDepth_children ::
    "nat \<Rightarrow> heap \<Rightarrow> ref_value list \<Rightarrow> nat \<Rightarrow> nat \<Rightarrow> ValidationResult
      \<Rightarrow> js_error + nat \<times> ValidationResult"
where
  "heap_checkDepth 0 h obj currentDepth r = Inl stack_overflow"
| "heap_checkDepth (Suc limit) h obj currentDepth r =
     (if currentDepth > MAX_DEPTH then Inr (currentDepth, push r excessive_nesting)
      else
        (case obj of
           Ref a \<Rightarrow>
             (case h a of
                HArray items \<Rightarrow> heap_checkDepth_children limit h items currentDepth currentDepth r
              | HObject props \<Rightarrow>
                  heap_checkDepth_children limit h (map snd props) currentDepth currentDepth r)
         | _ \<Rightarrow> Inr (currentDepth, r)))"
| "heap_checkDepth_children limit h [] currentDepth maxDepth r = Inr (maxDepth, r)"
| "heap_checkDepth_children limit h (item # items) currentDepth maxDepth r =
     (case heap_checkDepth limit h item (currentDepth + 1) r of
        Inl e \<Rightarrow> Inl e
      | Inr (depth, r1) \<Rightarrow>
          heap_checkDepth_children limit h items currentDepth (max maxDepth depth) r1)"

function heap_checkSize ::
    "nat \<Rightarrow> heap \<Rightarrow> ref_value \<Rightarrow> string \<Rightarrow> ValidationResult \<Rightarrow> js_error + ValidationResult"
  and heap_checkSize_items ::
    "nat \<Rightarrow> heap \<Rightarrow> ref_value list \<Rightarrow> nat \<Rightarrow> string \<Rightarrow> ValidationResult
      \<Rightarrow> js_error + ValidationResult"
  and heap_checkSize_entries ::
    "nat \<Rightarrow> heap \<Rightarrow> (string \<times> ref_value) list \<Rightarrow> string \<Rightarrow> ValidationResult
      \<Rightarrow> js_error + ValidationResult"
where
  "heap_checkSize 0 h obj pth r = Inl stack_overflow"
| "heap_checkSize (Suc limit) h obj pth r =
     (case obj of
        Ref a \<Rightarrow>
          (case h a of
             HArray items \<Rightarrow>
               if length items > MAX_COLLECTION_SIZE
               then Inr (push r (large_array pth (length items)))
               else heap_checkSize_items limit h items 0 pth r
           | HObject props \<Rightarrow>
               heap_checkSize_entries limit h props pth
                 (if length props > MAX_COLLECTION_SIZE
                  then push r (large_object pth (length props)) else r))
      | _ \<Rightarrow> Inr r)"
| "heap_checkSize_items limit h [] index pth r = Inr r"
| "heap_checkSize_items limit h (item # items) index pth r =
     (case heap_checkSize limit h item (pth @ ''['' @ string_of_nat index @ '']'') r of
        Inl e \<Rightarrow> Inl e
      | Inr r1 \<Rightarrow> heap_checkSize_items limit h items (Suc index) pth r1)"
| "heap_checkSize_entries limit h [] pth r = Inr r"
| "heap_checkSize_entries limit h ((key, v) # entries) pth r =
     (case heap_checkSize limit h v (if pth \<noteq> [] then pth @ ''.'' @ key else key) r of
        Inl e \<Rightarrow> Inl e
      | Inr r1 \<Rightarrow> heap_checkSize_entries limit h entries pth r1)"
  by pat_completeness auto
termination
  by (relation "measures
        [\<lambda>x. case x of Inl (n, _) \<Rightarrow> n | Inr (Inl (n, _)) \<Rightarrow> n | Inr (Inr (n, _)) \<Rightarrow> n,
         \<lambda>x. case x of Inl _ \<Rightarrow> 0 | Inr (Inl (n, h, items, _)) \<Rightarrow> Suc (length items)
                  | Inr (Inr (n, h, entries, _)) \<Rightarrow> Suc (length entries)]")
    auto

text \<open>
  \<^verbatim>\<open>checkJsonAnomalies\<close> over the store: an error of a walk is not caught and leaves
  the function.
\<close>

definition heap_checkJsonAnomalies ::
  "(heap \<Rightarrow> ref_value \<Rightarrow> js_error + string option) \<Rightarrow> nat \<Rightarrow> heap \<Rightarrow> ref_value
    \<Rightarrow> js_error + ValidationResult" where
  "heap_checkJsonAnomalies stringify limit h jsonData =
     (let r0 = initial_result;
          r1 = (case stringify h jsonData of
                  Inl (TypeError m) \<Rightarrow>
                    if str_includes m ''circular'' then push r0 circular_reference else r0
                | _ \<Rightarrow> r0)
      in case heap_checkForInvalidNumbers limit h jsonData [] r1 of
           Inl e \<Rightarrow> Inl e
         | Inr r2 \<Rightarrow>
             (case heap_checkDepth limit h jsonData 0 r2 of
                Inl e \<Rightarrow> Inl e
              | Inr (depth, r3) \<Rightarrow> heap_checkSize limit h jsonData [] r3))"

text \<open>
  \<^verbatim>\<open>const a = {}; a.self = a\<close>: the store holds one object, whose property refers
  to the object itself. \<^verbatim>\<open>JSON.stringify(a)\<close> throws
  \<^verbatim>\<open>TypeError: Converting circular structure to JSON\<close>.
\<close>

definition self_cycle :: heap where
  "self_cycle = (\<lambda>a. HObject [(''self'', Ref 0)])"

definition circular_stringify :: "heap \<Rightarrow> ref_value \<Rightarrow> js_error + string option" where
  "circular_stringify h v = Inl (TypeError ''Converting circular structure to JSON'')"

section \<open>Measures of a value\<close>

text \<open>
  The number of nodes of a value at depth \<open>d\<close>, the root being at depth 0 and a child
  one deeper than its parent, and the depth of the deepest node.
\<close>

fun nodes_at :: "jsvalue \<Rightarrow> nat \<Rightarrow> nat"
  and nodes_at_items :: "jsvalue list \<Rightarrow> nat \<Rightarrow> nat"
  and nodes_at_entries :: "(string \<times> jsvalue) list \<Rightarrow> nat \<Rightarrow> nat"
where
  "nodes_at v 0 = 1"
| "nodes_at (JArray items) (Suc d) = nodes_at_items items d"
| "nodes_at (JObject props) (Suc d) = nodes_at_entries props d"
| "nodes_at JNull (Suc d) = 0"
| "nodes_at JUndefined (Suc d) = 0"
| "nodes_at (JBoolean b) (Suc d) = 0"
| "nodes_at (JNumber x) (Suc d) = 0"
| "nodes_at (JString s) (Suc d) = 0"
| "nodes_at_items [] d = 0"
| "nodes_at_items (item # items) d = nodes_at item d + nodes_at_items items d"
| "nodes_at_entries [] d = 0"
| "nodes_at_entries ((key, v) # entries) d = nodes_at v d + nodes_at_entries entries d"

fun deepest :: "jsvalue \<Rightarrow> nat"
  and deepest_items :: "jsvalue list \<Rightarrow> nat"
  and deepest_entries :: "(string \<times> jsvalue) list \<Rightarrow> nat"
where
  "deepest (JArray items) = deepest_items items"
| "deepest (JObject props) = deepest_entries props"
| "deepest JNull = 0"
| "deepest JUndefined = 0"
| "deepest (JBoolean b) = 0"
| "deepest (JNumber x) = 0"
| "deepest (JString s) = 0"
| "deepest_items [] = 0"
| "deepest_items (item # items) = max (Suc (deepest item)) (deepest_items items)"
| "deepest_entries [] = 0"
| "deepest_entries ((key, v) # entries) = max (Suc (deepest v)) (deepest_entries entries)"

text \<open>\<open>nest n v\<close> is \<open>v\<close> inside \<open>n\<close> arrays of one element.\<close>

fun nest :: "nat \<Rightarrow> jsvalue \<Rightarrow> jsvalue" where
  "nest 0 v = v"
| "nest (Suc n) v = JArray [nest n v]"

text \<open>A report is well formed when it is valid exactly if it has no findings.\<close>

definition report_ok :: "ValidationResult \<Rightarrow> bool" where
  "report_ok r = (valid r \<longleftrightarrow> errors r = [])"

text \<open>
  Ajv's contract, which the model of \<^verbatim>\<open>validateJsonSchema\<close> leaves to the platform: a
  validation that fails leaves a list of errors that is not empty.
\<close>

definition ajv_reports_failures :: "platform \<Rightarrow> bool" where
  "ajv_reports_failures P =
     (\<forall>schema validate data. Ajv_compile P schema = Inr validate \<longrightarrow> \<not> fst (validate data) \<longrightarrow>
        (\<exists>e es. snd (validate data) = Some (e # es)))"

fun state_of :: "'a outcome \<Rightarrow> pstate" where
  "state_of (Ok x s) = s"
| "state_of (Thrown m s) = s"

section \<open>Running the model on a text\<close>

text \<open>
  The equations of the functions that take a budget, for a budget written as a numeral,
  and the definitions a run unfolds.
\<close>

lemmas fuel_numeral =
  white.simps(2) [of "pred_numeral k" for k, folded numeral_eq_Suc]
  string_loop.simps(2) [of "pred_numeral k" for k, folded numeral_eq_Suc]
  token_loop.simps(2) [of "pred_numeral k" for k, folded numeral_eq_Suc]
  value_p.simps(2) [of "pred_numeral k" for k, folded numeral_eq_Suc]
  object.simps(2) [of "pred_numeral k" for k, folded numeral_eq_Suc]
  object_loop.simps(2) [of "pred_numeral k" for k, folded numeral_eq_Suc]
  array.simps(2) [of "pred_numeral k" for k, folded numeral_eq_Suc]
  array_loop.simps(2) [of "pred_numeral k" for k, folded numeral_eq_Suc]
  json_value.simps(2) [of "pred_numeral k" for k, folded numeral_eq_Suc]
  json_elements.simps(2) [of "pred_numeral k" for k, folded numeral_eq_Suc]
  json_members.simps(2) [of "pred_numeral k" for k, folded numeral_eq_Suc]

lemmas scan_eval = permissive_scan_def object_key_def object_next_def array_next_def
  string_lit_def next_ch_def charAt_def report_duplicate_def push_def
  line_column_def line_column_step_def Let_def upt_rec fuel_numeral

lemmas parse_eval = JSON_parse_model_def skip_ws_def is_json_space_def json_key_def
  json_after_def json_number_def json_literal_def json_digits_def is_digit_def parseInt_def
  digit_value_def to_double_def define_property_def own_property_order_def
  is_array_index_def unexpected_def json_string.simps Let_def string_of_nat.simps
  digit_char_def fuel_numeral

lemmas lines_eval = scan_lines_def line_duplicates_def line_keys.simps keyRegex_exec_def
  match_key_at_def add_position_def charAt_def is_space_def Let_def upt_rec

lemmas syntax_eval = validateJsonSyntax_def startsWith_def line_column_def
  line_column_step_def charAt_def upt_rec is_digit_def parseInt_def digit_value_def

lemmas duplicates_eval = checkDuplicateKeys_def thorough_check_def validateJsonSyntax_def
  reference_def JSON_stringify_model_def Let_def

lemmas ajv_eval = reference_def Ajv_compile_model_def ajv_types_def type_validator_def
  has_type_def

lemma parse_empty: "JSON_parse_model [] = Inl (SyntaxError ''Unexpected end of JSON input'')"
  by (simp add: parse_eval)

lemma parse_blank:
  \<open>JSON_parse_model '' \<newline> '' = Inl (SyntaxError ''Unexpected end of JSON input'')\<close>
  by (simp add: parse_eval)

lemma parse_space: "JSON_parse_model '' '' = Inl (SyntaxError ''Unexpected end of JSON input'')"
  by (simp add: parse_eval)

lemma parse_two_lines:
  \<open>JSON_parse_model ''[1,\<newline>2 3]'' =
     Inl (SyntaxError ''Unexpected number in JSON at position 6'')\<close>
  by (simp add: parse_eval)

lemma parse_truncated:
  \<open>JSON_parse_model ''{"a":1,"a":2,'' = Inl (SyntaxError ''Unexpected end of JSON input'')\<close>
  by (simp add: parse_eval)

lemma parse_a1a2x:
  \<open>JSON_parse_model ''{"a":1,"a":2}x'' =
     Inl (SyntaxError ''Unexpected token x in JSON at position 13'')\<close>
  by (simp add: parse_eval)

lemma parse_a1: \<open>JSON_parse_model ''{"a":1}'' = Inr (JObject [(''a'', JNumber (Finite 1 0))])\<close>
  by (simp add: parse_eval)

lemma syntax_a1a2x:
  \<open>validateJsonSyntax reference ''{"a":1,"a":2}x'' =
     \<lparr>valid = False,
      errors = [\<lparr>type = ''SyntaxError'',
                 message = ''Unexpected token x in JSON at position 13'',
                 path = None, line = Some 1, column = Some 14\<rparr>]\<rparr>\<close>
  by (simp add: syntax_eval reference_def parse_a1a2x)

lemma scan_a1a2x:
  \<open>permissive_scan 30 ''{"a":1,"a":2}x'' initial_result =
     Some (Thrown ''Syntax error''
            \<lparr>at = 14, ch = ''x'',
             result = \<lparr>valid = False, errors = [duplicate_in_object ''a'' 1 9]\<rparr>\<rparr>)\<close>
  by (simp add: scan_eval initial_result_def duplicate_in_object_def)

lemma scan_a1:
  \<open>permissive_scan 20 ''{"a":1}'' initial_result =
     Some (Ok () \<lparr>at = 8, ch = [], result = initial_result\<rparr>)\<close>
  by (simp add: scan_eval)

lemma lines_a1: \<open>scan_lines ''{"a":1}'' = []\<close>
  by (simp add: lines_eval)

lemma duplicates_a1: \<open>checkDuplicateKeys reference 20 ''{"a":1}'' = Some initial_result\<close>
  by (simp add: duplicates_eval parse_a1 scan_a1 lines_a1)

lemma compile_nonsense:
  "Ajv_compile reference (JObject [(''type'', JString ''nonsense'')]) =
     Inl (Error ''schema is invalid: data/type must be equal to one of the allowed values'')"
  by (simp add: ajv_eval)

section \<open>The shape of a report\<close>

lemma report_ok_push: "report_ok (push r e)"
  by (simp add: report_ok_def push_def)

lemma report_ok_initial: "report_ok initial_result"
  by (simp add: report_ok_def initial_result_def)

lemma fold_push_ok: "report_ok r \<Longrightarrow> report_ok (fold (\<lambda>x r'. push r' (f x)) xs r)"
  by (induction xs arbitrary: r) (auto simp: report_ok_push)

lemma validateJsonSyntax_ok: "report_ok (validateJsonSyntax P s)"
  by (auto simp: validateJsonSyntax_def report_ok_def Let_def split: sum.splits js_error.splits)

subsection \<open>The scanner writes to the result by pushing only\<close>

lemma result_next_ch: "result (next_ch input s) = result s"
  by (simp add: next_ch_def)

lemma white_result: "white n input s = Some s' \<Longrightarrow> result s' = result s"
  by (induction n arbitrary: s) (auto simp: result_next_ch split: if_splits)

lemma token_loop_result: "token_loop n input s = Some s' \<Longrightarrow> result s' = result s"
  by (induction n arbitrary: s) (auto simp: result_next_ch split: if_splits)

lemma string_loop_result:
  "string_loop n input s str = Some (key, s') \<Longrightarrow> result s' = result s"
  by (induction n arbitrary: s str) (auto simp: result_next_ch Let_def split: if_splits)

lemma string_lit_result: "string_lit n input s = Some (key, s') \<Longrightarrow> result s' = result s"
  by (auto simp: string_lit_def result_next_ch split: if_splits option.splits
      dest: string_loop_result)

lemma object_key_ok:
  "object_key n input keys s = Some out \<Longrightarrow> report_ok (result s)
    \<Longrightarrow> report_ok (result (state_of out))"
  by (auto simp: object_key_def report_duplicate_def Let_def result_next_ch report_ok_push
      split: if_splits option.splits dest!: white_result string_lit_result)

lemma object_next_result:
  "object_next n input s = Some out \<Longrightarrow> result (state_of out) = result s"
  by (auto simp: object_next_def result_next_ch split: if_splits option.splits
      dest!: white_result)

lemma array_next_result:
  "array_next n input s = Some out \<Longrightarrow> result (state_of out) = result s"
  by (auto simp: array_next_def result_next_ch split: if_splits option.splits
      dest!: white_result)

lemma scanner_ok:
  "(\<forall>s out. value_p n input s = Some out \<longrightarrow> report_ok (result s)
      \<longrightarrow> report_ok (result (state_of out)))
 \<and> (\<forall>s out. object n input s = Some out \<longrightarrow> report_ok (result s)
      \<longrightarrow> report_ok (result (state_of out)))
 \<and> (\<forall>s keys out. object_loop n input keys s = Some out \<longrightarrow> report_ok (result s)
      \<longrightarrow> report_ok (result (state_of out)))
 \<and> (\<forall>s out. array n input s = Some out \<longrightarrow> report_ok (result s)
      \<longrightarrow> report_ok (result (state_of out)))
 \<and> (\<forall>s out. array_loop n input s = Some out \<longrightarrow> report_ok (result s)
      \<longrightarrow> report_ok (result (state_of out)))"
proof (induction n)
  case 0
  show ?case by simp
next
  case (Suc n)
  have v: "value_p n input s = Some out \<Longrightarrow> report_ok (result s)
      \<Longrightarrow> report_ok (result (state_of out))" for s out
    using Suc by blast
  have ob: "object n input s = Some out \<Longrightarrow> report_ok (result s)
      \<Longrightarrow> report_ok (result (state_of out))" for s out
    using Suc by blast
  have ol: "object_loop n input keys s = Some out \<Longrightarrow> report_ok (result s)
      \<Longrightarrow> report_ok (result (state_of out))" for s keys out
    using Suc by blast
  have ar: "array n input s = Some out \<Longrightarrow> report_ok (result s)
      \<Longrightarrow> report_ok (result (state_of out))" for s out
    using Suc by blast
  have al: "array_loop n input s = Some out \<Longrightarrow> report_ok (result s)
      \<Longrightarrow> report_ok (result (state_of out))" for s out
    using Suc by blast
  have 1: "report_ok (result (state_of out))"
    if "value_p (Suc n) input s = Some out" "report_ok (result s)" for s out
    using that
    by (auto simp: result_next_ch split: if_splits option.splits
        dest!: white_result token_loop_result string_lit_result dest: ob ar)
  have 2: "report_ok (result (state_of out))"
    if "object (Suc n) input s = Some out" "report_ok (result s)" for s out
    using that
    by (auto simp: result_next_ch split: if_splits option.splits dest!: white_result dest: ol)
  have 3: "report_ok (result (state_of out))"
    if "object_loop (Suc n) input keys s = Some out" "report_ok (result s)" for s keys out
    using that
    by (auto split: if_splits option.splits outcome.splits
        dest!: object_key_ok v object_next_result dest: ol)
  have 4: "report_ok (result (state_of out))"
    if "array (Suc n) input s = Some out" "report_ok (result s)" for s out
    using that
    by (auto simp: result_next_ch split: if_splits option.splits dest!: white_result dest: al)
  have 5: "report_ok (result (state_of out))"
    if "array_loop (Suc n) input s = Some out" "report_ok (result s)" for s out
    using that
    by (auto split: if_splits option.splits outcome.splits
        dest!: v array_next_result dest: al)
  show ?case
    using 1 2 3 4 5 by blast
qed

lemma permissive_scan_ok:
  assumes "permissive_scan fuel input r = Some out" and "report_ok r"
  shows "report_ok (result (state_of out))"
proof -
  have v: "value_p fuel input s = Some o' \<Longrightarrow> report_ok (result s)
      \<Longrightarrow> report_ok (result (state_of o'))" for s o'
    using scanner_ok [of fuel input] by blast
  show ?thesis
    using assms
    by (auto simp: permissive_scan_def split: option.splits outcome.splits if_splits
        dest!: white_result dest: v)
qed

subsection \<open>The operations\<close>

lemma thorough_check_ok: "thorough_check P s r = Inr r' \<Longrightarrow> report_ok r \<Longrightarrow> report_ok r'"
  by (auto simp: thorough_check_def fold_push_ok split: sum.splits option.splits if_splits)

lemma checkDuplicateKeys_ok:
  assumes "checkDuplicateKeys P fuel s = Some r"
  shows "report_ok r"
proof -
  define r1 where
    "r1 = (case thorough_check P s initial_result of Inr r \<Rightarrow> r | Inl e \<Rightarrow> initial_result)"
  define r2 where
    "r2 = fold (\<lambda>x r. push r (case x of (key, ln, col) \<Rightarrow> duplicate_in_object key ln col))
            (scan_lines s) r1"
  have "report_ok r1"
    by (auto simp: r1_def report_ok_initial split: sum.splits dest: thorough_check_ok)
  then have ok2: "report_ok r2"
    unfolding r2_def by (rule fold_push_ok)
  have r2': "r2 = fold (\<lambda>(key, ln, col) r. push r (duplicate_in_object key ln col))
                    (scan_lines s) r1"
    unfolding r2_def by (simp add: case_prod_unfold)
  show ?thesis
    using assms ok2 validateJsonSyntax_ok [of P s] permissive_scan_ok [of fuel s r2]
    unfolding checkDuplicateKeys_def Let_def r2' r1_def
    by (auto split: if_splits option.splits outcome.splits)
qed

lemma checkForInvalidNumbers_ok:
  "report_ok r \<Longrightarrow> report_ok (checkForInvalidNumbers v pth r)"
  "report_ok r \<Longrightarrow> report_ok (checkForInvalidNumbers_items vs i pth r)"
  "report_ok r \<Longrightarrow> report_ok (checkForInvalidNumbers_entries kvs pth r)"
  by (induction v pth r and vs i pth r and kvs pth r
      rule: checkForInvalidNumbers_checkForInvalidNumbers_items_checkForInvalidNumbers_entries.induct)
     (auto simp: report_ok_push split: jsnumber.splits)

lemma checkDepth_ok:
  "report_ok r \<Longrightarrow> report_ok (snd (checkDepth v d r))"
  "report_ok r \<Longrightarrow> report_ok (snd (checkDepth_items vs d m r))"
  "report_ok r \<Longrightarrow> report_ok (snd (checkDepth_entries kvs d m r))"
  by (induction v d r and vs d m r and kvs d m r
      rule: checkDepth_checkDepth_items_checkDepth_entries.induct)
     (auto simp: report_ok_push split: jsvalue.splits prod.splits)

lemma checkSize_ok:
  "report_ok r \<Longrightarrow> report_ok (checkSize v pth r)"
  "report_ok r \<Longrightarrow> report_ok (checkSize_items vs i pth r)"
  "report_ok r \<Longrightarrow> report_ok (checkSize_entries kvs pth r)"
  by (induction v pth r and vs i pth r and kvs pth r
      rule: checkSize_checkSize_items_checkSize_entries.induct)
     (auto simp: report_ok_push)

lemma checkJsonAnomalies_ok: "report_ok (checkJsonAnomalies P v)"
  unfolding checkJsonAnomalies_def Let_def
  by (intro checkSize_ok checkDepth_ok checkForInvalidNumbers_ok)
     (auto simp: report_ok_push report_ok_initial split: sum.splits js_error.splits)

lemma validateJsonSchema_ok:
  assumes "ajv_reports_failures P" and "validateJsonSchema P v schema = Inr r"
  shows "report_ok r"
proof -
  obtain validate where c: "Ajv_compile P schema = Inr validate"
    using assms(2) by (auto simp: validateJsonSchema_def split: sum.splits)
  obtain ok errs where ve: "validate v = (ok, errs)"
    by (cases "validate v")
  have "\<not> ok \<Longrightarrow> \<exists>e es. errs = Some (e # es)"
    using assms(1) [unfolded ajv_reports_failures_def, rule_format, of schema validate v] c ve
    by simp
  then show ?thesis
    using assms(2) c ve
    by (cases ok) (auto simp: validateJsonSchema_def report_ok_def Let_def split: option.splits)
qed

lemma validateJson_ok:
  assumes "ajv_reports_failures P" and "validateJson P fuel s schema = Some (Inr r)"
  shows "report_ok r"
  using assms(2) checkDuplicateKeys_ok [of P fuel s] validateJsonSyntax_ok [of P s]
    checkJsonAnomalies_ok [of P] validateJsonSchema_ok [OF assms(1)]
  unfolding validateJson_def Let_def
  by (auto split: option.splits if_splits sum.splits) (auto simp: report_ok_def)

lemma reference_validators:
  assumes "Ajv_compile_model schema = Inr validate"
  shows "validate = (\<lambda>data. (True, None)) \<or> (\<exists>t. validate = type_validator t)"
proof (cases schema)
  case (JObject props)
  show ?thesis
  proof (cases props)
    case Nil
    then show ?thesis
      using assms JObject by (simp add: Ajv_compile_model_def)
  next
    case (Cons kv rest)
    obtain k v where kv: "kv = (k, v)"
      by (cases kv)
    show ?thesis
      using assms JObject Cons kv
      by (cases v) (auto simp: Ajv_compile_model_def split: if_splits)
  qed
qed (use assms in \<open>simp_all add: Ajv_compile_model_def\<close>)

lemma reference_ajv_reports_failures: "ajv_reports_failures reference"
  unfolding ajv_reports_failures_def
proof (intro allI impI)
  fix schema validate data
  assume "Ajv_compile reference schema = Inr validate" and f: "\<not> fst (validate data)"
  then have "validate = (\<lambda>data. (True, None)) \<or> (\<exists>t. validate = type_validator t)"
    using reference_validators [of schema validate] by (simp add: reference_def)
  then show "\<exists>e es. snd (validate data) = Some (e # es)"
    using f by (auto simp: type_validator_def split: if_splits)
qed

text \<open>
  Claim C1. Every operation that returns a report (\<^verbatim>\<open>validateJsonSyntax\<close>,
  \<^verbatim>\<open>checkDuplicateKeys\<close>, \<^verbatim>\<open>checkJsonAnomalies\<close>, \<^verbatim>\<open>validateJsonSchema\<close>,
  \<^verbatim>\<open>validateJson\<close>) returns, on every input, a report that is valid with no findings
  or invalid with at least one finding. The schema validator of the platform is held
  to its contract: a validation that fails leaves at least one error.
\<close>

theorem report_is_valid_iff_no_errors:
  assumes "ajv_reports_failures P"
  shows "report_ok (validateJsonSyntax P jsonString)
       \<and> (\<forall>r. checkDuplicateKeys P fuel jsonString = Some r \<longrightarrow> report_ok r)
       \<and> report_ok (checkJsonAnomalies P jsonData)
       \<and> (\<forall>r. validateJsonSchema P jsonData schema = Inr r \<longrightarrow> report_ok r)
       \<and> (\<forall>r. validateJson P fuel jsonString optional_schema = Some (Inr r) \<longrightarrow> report_ok r)"
  using validateJsonSyntax_ok checkDuplicateKeys_ok checkJsonAnomalies_ok
    validateJsonSchema_ok [OF assms] validateJson_ok [OF assms]
  by blast

theorem report_is_valid_iff_no_errors_witness:
  \<open>ajv_reports_failures reference
   \<and> report_ok (validateJsonSyntax reference ''{"a":1}'')
   \<and> checkDuplicateKeys reference 20 ''{"a":1}'' = Some initial_result
   \<and> report_ok initial_result
   \<and> report_ok (checkJsonAnomalies reference (JObject [(''a'', JNumber (Finite 1 0))]))
   \<and> validateJsonSchema reference (JObject [(''a'', JNumber (Finite 1 0))])
         (JObject [(''type'', JString ''array'')]) =
       Inr \<lparr>valid = False,
            errors = [\<lparr>type = ''SchemaError'', message = ''must be array'', path = Some [],
                       line = None, column = None\<rparr>]\<rparr>
   \<and> validateJson reference 20 ''{"a":1}'' (Some (JObject [(''type'', JString ''array'')])) =
       Some (Inr \<lparr>valid = False,
                  errors = [\<lparr>type = ''SchemaError'', message = ''must be array'',
                             path = Some [], line = None, column = None\<rparr>]\<rparr>)
   \<and> report_ok \<lparr>valid = False,
                errors = [\<lparr>type = ''SchemaError'', message = ''must be array'', path = Some [],
                           line = None, column = None\<rparr>]\<rparr>\<close>
proof -
  let ?v = "JObject [(''a'', JNumber (Finite 1 0))]"
  let ?s = "JObject [(''type'', JString ''array'')]"
  let ?r = "\<lparr>valid = False,
             errors = [\<lparr>type = ''SchemaError'', message = ''must be array'', path = Some [],
                        line = None, column = None\<rparr>]\<rparr>"
  have s: "validateJsonSchema reference ?v ?s = Inr ?r"
    by (simp add: validateJsonSchema_def ajv_eval schema_error_def)
  have p: \<open>JSON_parse reference ''{"a":1}'' = Inr ?v\<close>
    by (simp add: reference_def parse_a1)
  have a: "checkJsonAnomalies reference ?v = initial_result"
    by (simp add: checkJsonAnomalies_def reference_def JSON_stringify_model_def
        MAX_DEPTH_def MAX_COLLECTION_SIZE_def)
  have j: \<open>validateJson reference 20 ''{"a":1}'' (Some ?s) = Some (Inr ?r)\<close>
    by (simp add: validateJson_def duplicates_a1 validateJsonSyntax_def p a s)
       (simp add: initial_result_def)
  show ?thesis
    using report_is_valid_iff_no_errors [OF reference_ajv_reports_failures,
        of \<open>''{"a":1}''\<close> 20 ?v ?s "Some ?s"]
      reference_ajv_reports_failures duplicates_a1 s j
    by simp
qed

section \<open>Empty input\<close>

lemma parse_failure_returns_syntax:
  assumes "JSON_parse P s = Inl e"
  shows "checkDuplicateKeys P fuel s = Some (validateJsonSyntax P s)"
    and "validateJson P fuel s schema = Some (Inr (validateJsonSyntax P s))"
    and "\<not> valid (validateJsonSyntax P s)"
proof -
  show nv: "\<not> valid (validateJsonSyntax P s)"
    using assms by (auto simp: validateJsonSyntax_def Let_def split: js_error.splits)
  have "thorough_check P s initial_result = Inl e"
    using assms by (simp add: thorough_check_def)
  then show cd: "checkDuplicateKeys P fuel s = Some (validateJsonSyntax P s)"
    using nv by (simp add: checkDuplicateKeys_def Let_def)
  show "validateJson P fuel s schema = Some (Inr (validateJsonSyntax P s))"
    using cd nv by (simp add: validateJson_def)
qed

lemma syntax_report_kinds:
  assumes "JSON_parse P s = Inl e"
  shows "\<exists>x. errors (validateJsonSyntax P s) = [x]
           \<and> (type x = ''SyntaxError'' \<or> type x = ''UnknownError'')"
  using assms by (auto simp: validateJsonSyntax_def Let_def split: js_error.splits)

lemma trim_empty_iff: "trim s = [] \<longleftrightarrow> (\<forall>c\<in>set s. is_space c)"
proof
  assume "trim s = []"
  then have "\<forall>c\<in>set (dropWhile is_space s). is_space c"
    by (simp add: trim_def dropWhile_eq_Nil_conv)
  then have "dropWhile is_space s = []"
    using hd_dropWhile [of is_space s] by (cases "dropWhile is_space s") auto
  then show "\<forall>c\<in>set s. is_space c"
    by (simp add: dropWhile_eq_Nil_conv)
next
  assume "\<forall>c\<in>set s. is_space c"
  then have d: "dropWhile is_space s = []"
    by (simp add: dropWhile_eq_Nil_conv)
  show "trim s = []"
    unfolding trim_def d by simp
qed

text \<open>The parser of the reference platform rejects a text of white space.\<close>

lemma blank_text_is_rejected:
  assumes "trim s = []"
  shows "\<exists>e. JSON_parse_model s = Inl e"
proof -
  define r0 where "r0 = dropWhile is_json_space s"
  define p0 where "p0 = length (takeWhile is_json_space s)"
  have sp: "\<forall>c\<in>set r0. is_space c"
    using assms set_dropWhileD [of _ is_json_space s] by (auto simp: trim_empty_iff r0_def)
  have "\<exists>e. json_value (Suc (length s)) p0 r0 = Inl e"
  proof (cases r0)
    case Nil
    then show ?thesis by simp
  next
    case (Cons c cs)
    have "dropWhile is_json_space s \<noteq> []"
      using Cons unfolding r0_def by auto
    then have "\<not> is_json_space (hd (dropWhile is_json_space s))"
      by (rule hd_dropWhile)
    then have "\<not> is_json_space c"
      using Cons unfolding r0_def by auto
    moreover have "is_space c"
      using sp Cons by simp
    ultimately have "c = CHR 0x0B \<or> c = CHR 0x0C \<or> c = CHR 0xA0"
      by (auto simp: is_space_def is_json_space_def)
    then have "json_value (Suc (length s)) p0 (c # cs) = Inl (unexpected p0 (c # cs))"
      by (elim disjE) (simp_all add: json_literal_def is_digit_def)
    then show ?thesis
      using Cons by blast
  qed
  then obtain e where "json_value (Suc (length s)) p0 r0 = Inl e"
    by blast
  then have "JSON_parse_model s = Inl e"
    unfolding JSON_parse_model_def skip_ws_def r0_def p0_def
    by (simp del: json_value.simps)
  then show ?thesis
    by blast
qed

text \<open>
  Claim C2, as the code has it. For every input that is empty or white space only, the
  caller \<^verbatim>\<open>validateJsonInput\<close> reports exactly one finding, \<^verbatim>\<open>EmptyInput\<close>, and does
  not call \<^verbatim>\<open>validateJson\<close>. \<^verbatim>\<open>validateJson\<close> has no such stage: on a text the
  parser rejects, which a blank text is, it returns the report of
  \<^verbatim>\<open>validateJsonSyntax\<close>, one \<^verbatim>\<open>SyntaxError\<close> or \<^verbatim>\<open>UnknownError\<close> finding.
\<close>

theorem empty_input_is_caught_by_the_caller:
  assumes "trim jsonInput = []"
  shows "validateJsonInput P fuel jsonInput =
           Some (Inr \<lparr>valid = False, errors = [empty_input]\<rparr>)
       \<and> (\<exists>e. JSON_parse reference jsonInput = Inl e)
       \<and> (\<forall>e. JSON_parse P jsonInput = Inl e \<longrightarrow>
              validateJson P fuel jsonInput schema = Some (Inr (validateJsonSyntax P jsonInput))
            \<and> (\<exists>x. errors (validateJsonSyntax P jsonInput) = [x]
                   \<and> (type x = ''SyntaxError'' \<or> type x = ''UnknownError'')))"
  using assms parse_failure_returns_syntax(2) [of P jsonInput _ fuel schema]
    syntax_report_kinds [of P jsonInput] blank_text_is_rejected [OF assms]
  by (simp add: validateJsonInput_def reference_def)

theorem empty_input_is_caught_by_the_caller_witness:
  \<open>trim '' \<newline> '' = []
   \<and> validateJsonInput reference 0 '' \<newline> '' =
       Some (Inr \<lparr>valid = False, errors = [empty_input]\<rparr>)
   \<and> validateJson reference 0 '' \<newline> '' None =
       Some (Inr \<lparr>valid = False,
                  errors = [\<lparr>type = ''SyntaxError'', message = ''Unexpected end of JSON input'',
                             path = None, line = Some 1, column = Some 1\<rparr>]\<rparr>)\<close>
proof -
  have b: \<open>trim '' \<newline> '' = []\<close>
    by (simp add: trim_def is_space_def)
  have p: \<open>JSON_parse reference '' \<newline> '' = Inl (SyntaxError ''Unexpected end of JSON input'')\<close>
    by (simp add: reference_def parse_blank)
  show ?thesis
    using b p empty_input_is_caught_by_the_caller [OF b, of reference 0 None]
    by (simp add: validateJsonSyntax_def startsWith_def)
qed

text \<open>
  \<^verbatim>\<open>validateJson\<close> itself, on the empty text and on one blank, returns a
  \<^verbatim>\<open>SyntaxError\<close> finding, not \<^verbatim>\<open>EmptyInput\<close>.
\<close>

theorem validate_empty_text_counterexample:
  "validateJson reference 0 [] None =
     Some (Inr \<lparr>valid = False,
                errors = [\<lparr>type = ''SyntaxError'', message = ''Unexpected end of JSON input'',
                           path = None, line = Some 1, column = Some 1\<rparr>]\<rparr>)
   \<and> validateJson reference 0 '' '' None =
     Some (Inr \<lparr>valid = False,
                errors = [\<lparr>type = ''SyntaxError'', message = ''Unexpected end of JSON input'',
                           path = None, line = Some 1, column = Some 1\<rparr>]\<rparr>)"
proof -
  have p1: "JSON_parse reference [] = Inl (SyntaxError ''Unexpected end of JSON input'')"
    by (simp add: reference_def parse_empty)
  have p2: "JSON_parse reference '' '' = Inl (SyntaxError ''Unexpected end of JSON input'')"
    by (simp add: reference_def parse_space)
  show ?thesis
    using parse_failure_returns_syntax(2) [OF p1, of 0 None]
      parse_failure_returns_syntax(2) [OF p2, of 0 None] p1 p2
    by (simp add: validateJsonSyntax_def startsWith_def)
qed

section \<open>Syntax errors and duplicate keys\<close>

text \<open>
  Claim C4, as the code has it. The text is parsed inside \<^verbatim>\<open>checkDuplicateKeys\<close> before
  any duplicate is reported, and a failure returns the report of
  \<^verbatim>\<open>validateJsonSyntax\<close> at once (lines 274 to 281): for every text the parser rejects,
  with or without a duplicate key, \<^verbatim>\<open>checkDuplicateKeys\<close> and \<^verbatim>\<open>validateJson\<close> return
  that report, one \<^verbatim>\<open>SyntaxError\<close> or \<^verbatim>\<open>UnknownError\<close> finding.
\<close>

theorem syntax_error_precedes_duplicate_keys:
  assumes "JSON_parse P jsonString = Inl e"
  shows "checkDuplicateKeys P fuel jsonString = Some (validateJsonSyntax P jsonString)
       \<and> validateJson P fuel jsonString schema = Some (Inr (validateJsonSyntax P jsonString))
       \<and> (\<exists>x. errors (validateJsonSyntax P jsonString) = [x]
              \<and> (type x = ''SyntaxError'' \<or> type x = ''UnknownError''))"
  using parse_failure_returns_syntax(1,2) [OF assms] syntax_report_kinds [OF assms]
  by simp

theorem syntax_error_precedes_duplicate_keys_witness:
  \<open>JSON_parse reference ''{"a":1,"a":2,'' = Inl (SyntaxError ''Unexpected end of JSON input'')
   \<and> validateJson reference 0 ''{"a":1,"a":2,'' None =
       Some (Inr \<lparr>valid = False,
                  errors = [\<lparr>type = ''SyntaxError'', message = ''Unexpected end of JSON input'',
                             path = None, line = Some 1, column = Some 1\<rparr>]\<rparr>)\<close>
proof -
  have h: \<open>JSON_parse reference ''{"a":1,"a":2,'' =
             Inl (SyntaxError ''Unexpected end of JSON input'')\<close>
    by (simp add: reference_def parse_truncated)
  show ?thesis
    using h syntax_error_precedes_duplicate_keys [OF h, of 0 None]
    by (simp add: validateJsonSyntax_def startsWith_def)
qed

text \<open>
  The text \<^verbatim>\<open>{"a":1,"a":2}x\<close>: the scanner finds the second \<^verbatim>\<open>a\<close>, and
  \<^verbatim>\<open>validateJson\<close> returns the \<^verbatim>\<open>SyntaxError\<close> finding.
\<close>

theorem duplicate_key_then_syntax_error_counterexample:
  \<open>permissive_scan 30 ''{"a":1,"a":2}x'' initial_result =
     Some (Thrown ''Syntax error''
            \<lparr>at = 14, ch = ''x'',
             result = \<lparr>valid = False, errors = [duplicate_in_object ''a'' 1 9]\<rparr>\<rparr>)
   \<and> validateJson reference 30 ''{"a":1,"a":2}x'' None =
       Some (Inr \<lparr>valid = False,
                  errors = [\<lparr>type = ''SyntaxError'',
                             message = ''Unexpected token x in JSON at position 13'',
                             path = None, line = Some 1, column = Some 14\<rparr>]\<rparr>)\<close>
proof -
  have p: \<open>JSON_parse reference ''{"a":1,"a":2}x'' =
             Inl (SyntaxError ''Unexpected token x in JSON at position 13'')\<close>
    by (simp add: reference_def parse_a1a2x)
  show ?thesis
    using parse_failure_returns_syntax(2) [OF p, of 30 None]
    by (simp add: scan_a1a2x syntax_a1a2x)
qed

section \<open>The position of a syntax error\<close>

lemma line_column_Suc: "line_column s (Suc p) = line_column_step s p (line_column s p)"
  by (simp add: line_column_def)

text \<open>
  What the loop computes: the line is one more than the line feeds before the
  position, the column one more than the characters since the last of them; a
  position past the end of the text counts as further columns.
\<close>

lemma line_column_spec:
  "line_column s p =
     (1 + length (filter (\<lambda>c. c = CHR 0x0A) (take p s)),
      1 + length (takeWhile (\<lambda>c. c \<noteq> CHR 0x0A) (rev (take p s))) + (p - length s))"
proof (induction p)
  case 0
  show ?case by (simp add: line_column_def)
next
  case (Suc p)
  show ?case
  proof (cases "p < length s")
    case True
    then show ?thesis
      by (simp add: line_column_Suc Suc line_column_step_def charAt_def take_Suc_conv_app_nth)
  next
    case False
    then show ?thesis
      by (simp add: line_column_Suc Suc line_column_step_def charAt_def Suc_diff_le)
  qed
qed

text \<open>
  Claim C9, as the code has it. A parse failure yields one \<^verbatim>\<open>SyntaxError\<close> finding with
  the parser's message, and the finding always has a line and a column. When the
  message holds no \<^verbatim>\<open>at position N\<close> they are 1 and 1; when it does they are those of
  offset \<open>N\<close>, counted from 1.
\<close>

theorem syntax_error_line_column:
  assumes "JSON_parse P jsonString = Inl (SyntaxError msg)"
  shows "\<exists>ln col.
           validateJsonSyntax P jsonString =
             \<lparr>valid = False,
              errors = [\<lparr>type = ''SyntaxError'', message = msg, path = None,
                         line = Some ln, column = Some col\<rparr>]\<rparr>
         \<and> (case match_position msg of
               None \<Rightarrow> ln = 1 \<and> col = 1
             | Some ds \<Rightarrow>
                 ln = 1 + length (filter (\<lambda>c. c = CHR 0x0A) (take (parseInt ds) jsonString))
               \<and> col = 1 + length (takeWhile (\<lambda>c. c \<noteq> CHR 0x0A)
                                     (rev (take (parseInt ds) jsonString)))
                       + (parseInt ds - length jsonString))"
  using assms
  by (cases "match_position msg") (simp_all add: validateJsonSyntax_def line_column_spec)

theorem syntax_error_line_column_witness:
  \<open>JSON_parse reference ''[1,\<newline>2 3]'' =
     Inl (SyntaxError ''Unexpected number in JSON at position 6'')
   \<and> validateJsonSyntax reference ''[1,\<newline>2 3]'' =
       \<lparr>valid = False,
        errors = [\<lparr>type = ''SyntaxError'',
                   message = ''Unexpected number in JSON at position 6'',
                   path = None, line = Some 2, column = Some 3\<rparr>]\<rparr>\<close>
proof -
  have h: \<open>JSON_parse reference ''[1,\<newline>2 3]'' =
             Inl (SyntaxError ''Unexpected number in JSON at position 6'')\<close>
    by (simp add: reference_def parse_two_lines)
  show ?thesis
    using h syntax_error_line_column [OF h]
    by (auto simp: startsWith_def is_digit_def parseInt_def digit_value_def)
qed

text \<open>
  The empty text: the message of the parser holds no offset, and the finding has line 1
  and column 1.
\<close>

theorem syntax_error_without_offset_counterexample:
  "JSON_parse reference [] = Inl (SyntaxError ''Unexpected end of JSON input'')
   \<and> match_position ''Unexpected end of JSON input'' = None
   \<and> validateJsonSyntax reference [] =
       \<lparr>valid = False,
        errors = [\<lparr>type = ''SyntaxError'', message = ''Unexpected end of JSON input'',
                   path = None, line = Some 1, column = Some 1\<rparr>]\<rparr>"
  by (simp add: reference_def parse_empty validateJsonSyntax_def startsWith_def)

section \<open>A schema that does not compile\<close>

text \<open>
  Claim C10, as the code has it. \<^verbatim>\<open>validateJsonSchema\<close> calls \<^verbatim>\<open>ajv.compile\<close> outside
  any \<^verbatim>\<open>try\<close>: when the schema does not compile, no report is returned and the error
  of the compilation leaves \<^verbatim>\<open>validateJsonSchema\<close>, and \<^verbatim>\<open>validateJson\<close> too once the
  earlier stages have passed.
\<close>

theorem schema_compile_error_escapes:
  assumes "Ajv_compile P schema = Inl e"
  shows "validateJsonSchema P jsonData schema = Inl e
       \<and> (\<forall>d v. checkDuplicateKeys P fuel jsonString = Some d \<and> valid d
                 \<and> JSON_parse P jsonString = Inr v
              \<longrightarrow> validateJson P fuel jsonString (Some schema) = Some (Inl e))"
  using assms
  by (auto simp: validateJsonSchema_def validateJson_def validateJsonSyntax_def)

theorem schema_compile_error_escapes_witness:
  \<open>validateJsonSchema reference JNull (JObject [(''type'', JString ''nonsense'')]) =
     Inl (Error ''schema is invalid: data/type must be equal to one of the allowed values'')
   \<and> validateJson reference 20 ''{"a":1}'' (Some (JObject [(''type'', JString ''nonsense'')])) =
     Some (Inl (Error
       ''schema is invalid: data/type must be equal to one of the allowed values''))\<close>
proof -
  have p: \<open>JSON_parse reference ''{"a":1}'' = Inr (JObject [(''a'', JNumber (Finite 1 0))])\<close>
    by (simp add: reference_def parse_a1)
  have v: "valid initial_result"
    by (simp add: initial_result_def)
  show ?thesis
    using schema_compile_error_escapes [OF compile_nonsense, of JNull 20 \<open>''{"a":1}''\<close>]
      duplicates_a1 p v
    by blast
qed

text \<open>
  The schema \<^verbatim>\<open>{"type": "nonsense"}\<close> does not compile, and \<^verbatim>\<open>validateJsonSchema\<close>
  returns no report.
\<close>

theorem schema_compile_error_counterexample:
  "Ajv_compile reference (JObject [(''type'', JString ''nonsense'')]) =
     Inl (Error ''schema is invalid: data/type must be equal to one of the allowed values'')
   \<and> validateJsonSchema reference JNull (JObject [(''type'', JString ''nonsense'')]) =
     Inl (Error ''schema is invalid: data/type must be equal to one of the allowed values'')
   \<and> \<not> (\<exists>r. validateJsonSchema reference JNull (JObject [(''type'', JString ''nonsense'')])
             = Inr r)"
  by (simp add: validateJsonSchema_def compile_nonsense)

end
